theory Spec2Isabelle
  imports Main
begin

section \<open>Tagged values and handle slots\<close>

text \<open>
  Pointers are natural numbers; \<open>nullptr\<close> is address 0. A native function that does not
  complete returns \<open>Inl\<close> of a \<open>Failure\<close>, of which there are two kinds. An out-of-range index
  into a \<open>WTF::Vector\<close> is a check the code makes itself: the process crashes there. A
  dereference of a null pointer and the use of a handle scope whose storage is gone are
  not checked by anything: they are undefined behaviour, for which C++ promises neither
  that the program stops nor any particular result. \<open>UndefinedBehaviour\<close> records that the
  code reached such a point and why; it does not say what happens next.
\<close>

type_synonym ptr = nat

definition nullptr :: ptr where
  "nullptr = 0"

datatype Cause = NullPointerDereference | HandleScopeDestroyed

datatype Failure = UndefinedBehaviour Cause | VectorIndexOutOfBounds

definition bindF :: "Failure + 'a \<Rightarrow> ('a \<Rightarrow> Failure + 'b) \<Rightarrow> Failure + 'b" where
  "bindF m f = (case m of Inl e \<Rightarrow> Inl e | Inr x \<Rightarrow> f x)"

text \<open>\<open>WTF::Vector::operator[]\<close> as an assignment target: a crash out of range.\<close>

definition Vector_set :: "'a list \<Rightarrow> nat \<Rightarrow> 'a \<Rightarrow> Failure + 'a list" where
  "Vector_set xs i x = (if i < length xs then Inr (xs[i := x]) else Inl VectorIndexOutOfBounds)"

text \<open>
  Modelled from the spec: \<open>TaggedPointer\<close> (its header is not among the sources). The spec
  describes one machine word whose low bits encode a discriminant
  \<open>{Smi, HeapPointer, Empty}\<close>, built from a raw integer or from a heap address.
\<close>

datatype TaggedPointer = Smi int | HeapPointer ptr | Empty

text \<open>
  Modelled from the spec: \<open>TaggedPointer::Type\<close> and \<open>type()\<close>, the discriminant of a tagged
  pointer; the trampoline compares it with \<open>Type::Smi\<close>.
\<close>

datatype Type = Type_Smi | Type_HeapPointer | Type_Empty

fun type :: "TaggedPointer \<Rightarrow> Type" where
  "type (Smi n) = Type_Smi"
| "type (HeapPointer a) = Type_HeapPointer"
| "type Empty = Type_Empty"

text \<open>
  Modelled from the spec: \<open>getPtr()\<close>, the address of a heap pointer, and \<open>nullptr\<close> for a
  value that holds no address.
\<close>

fun getPtr :: "TaggedPointer \<Rightarrow> ptr" where
  "getPtr (Smi n) = nullptr"
| "getPtr (HeapPointer a) = a"
| "getPtr Empty = nullptr"

text \<open>
  Modelled from the spec: the default constructor \<open>TaggedPointer()\<close>, the value the
  trampoline stores in the return-value slot. The spec calls it the "unset" sentinel and
  reserves for it "a dedicated discriminant value disjoint from all legitimate encodings".
\<close>

definition TaggedPointer_default :: TaggedPointer where
  "TaggedPointer_default = Empty"

text \<open>
  Modelled from the spec: a legitimate encoded value is an inline small integer or a heap
  pointer to a valid (hence non-null) heap cell.
\<close>

fun legitimate :: "TaggedPointer \<Rightarrow> bool" where
  "legitimate (Smi n) = True"
| "legitimate (HeapPointer a) = (a \<noteq> nullptr)"
| "legitimate Empty = False"

section \<open>Handle scopes\<close>

text \<open>
  Modelled from the spec: \<open>HandleScope\<close>, \<open>Local\<close> and the isolate's scope stack
  (\<open>V8HandleScope.h\<close>, \<open>V8Local.h\<close> and \<open>V8Isolate.h\<close> are not among the sources).

  A \<open>HandleScope\<close> object holds a reference to its isolate, the saved pointer to the
  previously active scope and a pointer to its growable sequence of handle slots. The three
  fields never change after construction, so the object is a value; the slots are mutable
  and live in the world's memory, \<open>buffers\<close>, under the address \<open>buffer\<close>. The world also holds,
  for each isolate, its innermost active scope, and the next unused address.

  A \<open>Local\<close> is the address of one handle slot: the slot storage and the index in it. Slots are
  only ever appended, so growing the storage moves no slot.
\<close>

datatype HandleScope =
  HandleScope (hs_isolate: ptr) (prev: "HandleScope option") (buffer: ptr)

record World =
  currentHandleScope :: "ptr \<Rightarrow> HandleScope option"
  buffers :: "ptr \<Rightarrow> TaggedPointer list option"
  fresh :: ptr

record Local =
  slot_buffer :: ptr
  slot_index :: nat

text \<open>
  The host engine, as this layer consumes it: the tagged representation of a host value,
  the conversion of a tagged value back into a host value (which may read the handle
  slots that are alive, so it takes the world), and the host's \<open>undefined\<close>. The host value
  type is a parameter. \<open>JSValue::encode\<close> only reinterprets the bits of a host value, so an
  \<open>EncodedJSValue\<close> is the host value itself.
\<close>

record 'v Host =
  toTagged :: "'v \<Rightarrow> TaggedPointer"
  localToJSValue :: "World \<Rightarrow> TaggedPointer \<Rightarrow> 'v"
  jsUndefined :: 'v

text \<open>
  Modelled from the spec: \<open>HandleScope(Isolate*)\<close> "pushes itself onto the isolate's scope
  stack; records the previous top". Its slot storage is new and empty.
\<close>

definition HandleScope_ctor :: "ptr \<Rightarrow> World \<Rightarrow> HandleScope \<times> World" where
  "HandleScope_ctor isolate W =
     (let hs = HandleScope isolate (currentHandleScope W isolate) (fresh W)
      in (hs, W\<lparr>currentHandleScope := (currentHandleScope W)(isolate := Some hs),
                buffers := (buffers W)(fresh W \<mapsto> []),
                fresh := Suc (fresh W)\<rparr>))"

text \<open>
  Modelled from the spec: the destructor "pops the isolate's scope stack back to the saved
  previous top"; every handle slot the scope owns becomes invalid.
\<close>

definition HandleScope_dtor :: "HandleScope \<Rightarrow> World \<Rightarrow> World" where
  "HandleScope_dtor hs W =
     W\<lparr>currentHandleScope := (currentHandleScope W)(hs_isolate hs := prev hs),
       buffers := (buffers W)(buffer hs := None)\<rparr>"

text \<open>
  Modelled from the spec: \<open>createLocal\<close> "allocates the next handle slot from this scope's
  buffer, stores the tagged representation of the value, and returns a \<open>Local\<close> aliasing that
  slot". On a scope whose storage is gone it is undefined behaviour.
\<close>

definition createLocal ::
  "'v Host \<Rightarrow> HandleScope \<Rightarrow> ptr \<Rightarrow> 'v \<Rightarrow> World \<Rightarrow> Failure + (Local \<times> World)" where
  "createLocal H hs vm v W =
     (case buffers W (buffer hs) of
        None \<Rightarrow> Inl (UndefinedBehaviour HandleScopeDestroyed)
      | Some slots \<Rightarrow>
          Inr (\<lparr>slot_buffer = buffer hs, slot_index = length slots\<rparr>,
               W\<lparr>buffers := (buffers W)(buffer hs \<mapsto> slots @ [toTagged H v])\<rparr>))"

text \<open>
  Modelled from the spec: reading a handle slot through its address, which gives nothing
  once the owning scope is destroyed, and \<open>Local::tagged()\<close>, the tagged pointer in the slot
  of a \<open>Local\<close>.
\<close>

definition slot_read :: "World \<Rightarrow> Local \<Rightarrow> TaggedPointer option" where
  "slot_read W l =
     (case buffers W (slot_buffer l) of
        None \<Rightarrow> None
      | Some slots \<Rightarrow> if slot_index l < length slots then Some (slots ! slot_index l) else None)"

definition tagged :: "Local \<Rightarrow> World \<Rightarrow> Failure + TaggedPointer" where
  "tagged l W = (case slot_read W l of None \<Rightarrow> Inl (UndefinedBehaviour HandleScopeDestroyed) | Some t \<Rightarrow> Inr t)"

section \<open>Escapable handle scopes\<close>

text \<open>
  \<open>EscapableHandleScopeBase\<close> (EscapableHandleScopeBase.h): a \<open>HandleScope\<close> with one more field,
  the address of its escape slot. The header declares the constructor and \<open>EscapeSlot\<close>; their
  bodies are not among the sources.
\<close>

record EscapableHandleScopeBase =
  ehs_base :: HandleScope
  escape_slot :: Local

text \<open>
  Modelled from the spec: storing a tagged pointer in the handle slot at an address,
  undefined behaviour when the storage is gone and a crash when the index is out of range.
\<close>

definition slot_write :: "World \<Rightarrow> Local \<Rightarrow> TaggedPointer \<Rightarrow> Failure + World" where
  "slot_write W l t =
     (case buffers W (slot_buffer l) of
        None \<Rightarrow> Inl (UndefinedBehaviour HandleScopeDestroyed)
      | Some slots \<Rightarrow>
          bindF (Vector_set slots (slot_index l) t) (\<lambda>slots1.
            Inr (W\<lparr>buffers := (buffers W)(slot_buffer l \<mapsto> slots1)\<rparr>)))"

text \<open>
  Modelled from the spec: the constructor of \<open>EscapableHandleScopeBase\<close> "reserves one slot in
  the parent scope (the scope active immediately before this one was pushed) before this
  scope begins its own allocations, and remembers that slot's address as \<open>escape_slot\<close>". The
  base class is constructed first, so the parent is the saved previous scope; without one
  the constructor dereferences a null pointer.
\<close>

definition EscapableHandleScopeBase_ctor ::
  "ptr \<Rightarrow> World \<Rightarrow> Failure + (EscapableHandleScopeBase \<times> World)" where
  "EscapableHandleScopeBase_ctor isolate W =
     (let (hs, W1) = HandleScope_ctor isolate W
      in case prev hs of
           None \<Rightarrow> Inl (UndefinedBehaviour NullPointerDereference)
         | Some parent \<Rightarrow>
             (case buffers W1 (buffer parent) of
                None \<Rightarrow> Inl (UndefinedBehaviour HandleScopeDestroyed)
              | Some slots \<Rightarrow>
                  Inr (\<lparr>ehs_base = hs,
                        escape_slot = \<lparr>slot_buffer = buffer parent, slot_index = length slots\<rparr>\<rparr>,
                       W1\<lparr>buffers := (buffers W1)(buffer parent \<mapsto>
                            slots @ [TaggedPointer_default])\<rparr>)))"

text \<open>
  Modelled from the spec: \<open>EscapeSlot\<close> takes the address of the slot that holds the value,
  "writes the value's tagged representation into \<open>escape_slot\<close>" and "returns the address of
  \<open>escape_slot\<close>".
\<close>

definition EscapeSlot ::
  "EscapableHandleScopeBase \<Rightarrow> Local \<Rightarrow> World \<Rightarrow> Failure + (Local \<times> World)" where
  "EscapeSlot ehs escape_value W =
     bindF (tagged escape_value W) (\<lambda>t.
     bindF (slot_write W (escape_slot ehs) t) (\<lambda>W1.
       Inr (escape_slot ehs, W1)))"

section \<open>Sequences of scope operations\<close>

text \<open>
  A program using one isolate's handle scopes, as the sequence of what it does: construct a
  \<open>HandleScope\<close>, create a \<open>Local\<close> in the isolate's active scope, or destroy the innermost
  scope it constructed and has not destroyed yet (so destruction is in strict last-in
  first-out order). Creating a handle with no active scope, or closing a scope this program
  did not open, stops the run with \<open>NoHandleScope\<close>.

  A run records what the properties speak about: the scopes opened and not yet destroyed,
  innermost first, each with the scope that was active just before its construction; every
  \<open>Local\<close> created, with its scope and the host value it was created from; the scopes
  destroyed; and for each destruction the scope active before the construction paired with
  the scope active after the destruction.
\<close>

datatype Stop = Failed Failure | NoHandleScope

datatype 'v ScopeOp = OpenScope | CreateLocal 'v | CloseScope

record 'v Run =
  world :: World
  opened :: "(HandleScope \<times> HandleScope option) list"
  locals :: "(HandleScope \<times> Local \<times> 'v) list"
  destroyed :: "HandleScope list"
  restored :: "(HandleScope option \<times> HandleScope option) list"

definition start :: "World \<Rightarrow> 'v Run" where
  "start W = \<lparr>world = W, opened = [], locals = [], destroyed = [], restored = []\<rparr>"

fun step :: "'v Host \<Rightarrow> ptr \<Rightarrow> ptr \<Rightarrow> 'v ScopeOp \<Rightarrow> 'v Run \<Rightarrow> Stop + 'v Run" where
  "step H isolate vm OpenScope R =
     (let before = currentHandleScope (world R) isolate;
          (hs, W1) = HandleScope_ctor isolate (world R)
      in Inr (R\<lparr>world := W1, opened := (hs, before) # opened R\<rparr>))"
| "step H isolate vm (CreateLocal v) R =
     (case currentHandleScope (world R) isolate of
        None \<Rightarrow> Inl NoHandleScope
      | Some hs \<Rightarrow>
          (case createLocal H hs vm v (world R) of
             Inl e \<Rightarrow> Inl (Failed e)
           | Inr (l, W1) \<Rightarrow> Inr (R\<lparr>world := W1, locals := (hs, l, v) # locals R\<rparr>)))"
| "step H isolate vm CloseScope R =
     (case opened R of
        [] \<Rightarrow> Inl NoHandleScope
      | (hs, before) # rest \<Rightarrow>
          (let W1 = HandleScope_dtor hs (world R)
           in Inr (R\<lparr>world := W1, opened := rest, destroyed := hs # destroyed R,
                    restored := (before, currentHandleScope W1 isolate) # restored R\<rparr>)))"

fun run :: "'v Host \<Rightarrow> ptr \<Rightarrow> ptr \<Rightarrow> 'v ScopeOp list \<Rightarrow> 'v Run \<Rightarrow> Stop + 'v Run" where
  "run H isolate vm [] R = Inr R"
| "run H isolate vm (x # xs) R =
     (case step H isolate vm x R of Inl e \<Rightarrow> Inl e | Inr R1 \<Rightarrow> run H isolate vm xs R1)"

text \<open>
  A world is well formed when every slot storage in use lies below the next unused
  address, so that a new scope never takes the storage of a live one.
\<close>

definition world_ok :: "World \<Rightarrow> bool" where
  "world_ok W = (\<forall>b. buffers W b \<noteq> None \<longrightarrow> b < fresh W)"

text \<open>
  What every run from a well formed world keeps true, relative to the world \<open>W0\<close> it started
  from: storage allocated since the start belongs to a scope that is still open; storage
  older than the start only grows; the open scopes have distinct storage, each saved the
  scope that was active before it, and the innermost is the isolate's active scope; a
  \<open>Local\<close> whose scope is not destroyed reads the tagged value it was created with; each
  destruction restored the scope that was active before the construction.
\<close>

definition active :: "HandleScope option \<Rightarrow> (HandleScope \<times> HandleScope option) list \<Rightarrow> HandleScope option" where
  "active base os = (case os of [] \<Rightarrow> base | (h, b) # r \<Rightarrow> Some h)"

fun linked :: "HandleScope option \<Rightarrow> (HandleScope \<times> HandleScope option) list \<Rightarrow> bool" where
  "linked base [] = True"
| "linked base ((hs, before) # rest) = (before = active base rest \<and> linked base rest)"

definition run_inv :: "'v Host \<Rightarrow> ptr \<Rightarrow> World \<Rightarrow> 'v Run \<Rightarrow> bool" where
  "run_inv H it W0 R =
     (fresh W0 \<le> fresh (world R)
      \<and> (\<forall>b. fresh W0 \<le> b \<longrightarrow> buffers (world R) b \<noteq> None \<longrightarrow> b \<in> (buffer \<circ> fst) ` set (opened R))
      \<and> (\<forall>b xs. b < fresh W0 \<longrightarrow> buffers W0 b = Some xs \<longrightarrow>
            (\<exists>ys. buffers (world R) b = Some (xs @ ys)))
      \<and> distinct (map (buffer \<circ> fst) (opened R))
      \<and> (\<forall>(hs, before) \<in> set (opened R).
            fresh W0 \<le> buffer hs \<and> buffer hs < fresh (world R)
            \<and> buffers (world R) (buffer hs) \<noteq> None
            \<and> hs_isolate hs = it \<and> prev hs = before \<and> hs \<notin> set (destroyed R))
      \<and> currentHandleScope (world R) it = active (currentHandleScope W0 it) (opened R)
      \<and> linked (currentHandleScope W0 it) (opened R)
      \<and> (\<forall>d \<in> set (destroyed R). buffer d < fresh (world R))
      \<and> (\<forall>(s, l, v) \<in> set (locals R).
            slot_buffer l = buffer s
            \<and> (s \<notin> set (destroyed R) \<longrightarrow>
                 slot_read (world R) l = Some (toTagged H v)
                 \<and> (s \<in> fst ` set (opened R) \<or> buffer s < fresh W0)))
      \<and> (\<forall>(before, after) \<in> set (restored R). after = before))"

section \<open>The call trampoline\<close>

text \<open>
  \<open>ImplicitArgs\<close> and \<open>FunctionCallbackInfo\<close> as \<open>FunctionTemplate::functionCall\<close> fills them.
  The info holds a pointer to the trampoline's \<open>ImplicitArgs\<close> and a pointer into its argument
  vector: the vector and an offset. A native callback receives the info and the world; it
  writes its return value through the \<open>ImplicitArgs\<close> pointer, so it gives back the record
  and the world as it leaves them.
\<close>

record ImplicitArgs =
  holder :: ptr
  isolate :: ptr
  "context" :: ptr
  return_value :: TaggedPointer
  target :: TaggedPointer
  new_target :: ptr

record ArgPointer =
  vec :: "TaggedPointer list"
  offset :: nat

record FunctionCallbackInfo =
  info_implicit_args :: ImplicitArgs
  info_values :: ArgPointer
  info_length :: nat

type_synonym FunctionCallback = "FunctionCallbackInfo \<Rightarrow> World \<Rightarrow> ImplicitArgs \<times> World"

text \<open>
  \<open>FunctionTemplate\<close>: the native callback and the captured data value, a host value held
  by the template itself.
\<close>

record 'v FunctionTemplate =
  ft_structure :: ptr
  m_callback :: FunctionCallback
  m_data :: 'v

text \<open>
  \<open>FunctionTemplate::create\<close> (lines 25 to 31) constructs the cell from its four arguments.
  Modelled from the spec: the constructor, defined in the absent FunctionTemplate.h, keeps
  the callback and the data value the template is created with in \<open>m_callback\<close> and \<open>m_data\<close>,
  where the trampoline reads them.
\<close>

definition FunctionTemplate_create ::
  "ptr \<Rightarrow> ptr \<Rightarrow> FunctionCallback \<Rightarrow> 'v \<Rightarrow> 'v FunctionTemplate" where
  "FunctionTemplate_create vm structure callback data =
     \<lparr>ft_structure = structure, m_callback = callback, m_data = data\<rparr>"

text \<open>
  \<open>visitChildrenImpl\<close> (lines 43 to 51) reports the base class's children and then \<open>m_data\<close> to
  the collector's visitor, modelled as the list of values appended to it.
\<close>

definition visitChildrenImpl ::
  "('v FunctionTemplate \<Rightarrow> 'v list \<Rightarrow> 'v list) \<Rightarrow> 'v FunctionTemplate \<Rightarrow> 'v list \<Rightarrow> 'v list" where
  "visitChildrenImpl Base_visitChildren fn visitor = Base_visitChildren fn visitor @ [m_data fn]"

text \<open>
  \<open>Function\<close> (Function.h): a \<open>JSC::InternalFunction\<close> whose only constructor passes
  \<open>FunctionTemplate::functionCall\<close> to the base class as the native function for calls, and
  whose internals hold a write barrier to the function template, null until
  \<open>finishCreation\<close>. A native function pointer is either the trampoline or some other code
  address.
\<close>

datatype NativeFunction = FunctionTemplate_functionCall | OtherNativeFunction ptr

record 'v Function =
  fn_structure :: ptr
  m_functionForCall :: NativeFunction
  functionTemplate :: "'v FunctionTemplate option"

definition Function_ctor :: "ptr \<Rightarrow> ptr \<Rightarrow> 'v Function" where
  "Function_ctor vm structure =
     \<lparr>fn_structure = structure, m_functionForCall = FunctionTemplate_functionCall,
      functionTemplate = None\<rparr>"

text \<open>
  Modelled from the spec: the bodies of \<open>Function::finishCreation\<close> and \<open>Function::create\<close>
  (Function.h declares them; Function.cpp is not among the sources). The spec has the
  trampoline resolve "the callee's associated native callback and its captured data value"
  through the callee's function template, so \<open>finishCreation\<close> stores the template in the
  internals, and \<open>create\<close> is the constructor followed by \<open>finishCreation\<close>, the shape of
  \<open>FunctionTemplate::create\<close>.
\<close>

definition Function_finishCreation :: "'v Function \<Rightarrow> ptr \<Rightarrow> 'v FunctionTemplate \<Rightarrow> 'v Function" where
  "Function_finishCreation f vm ft = f\<lparr>functionTemplate := Some ft\<rparr>"

definition Function_create :: "ptr \<Rightarrow> ptr \<Rightarrow> 'v FunctionTemplate \<Rightarrow> 'v Function" where
  "Function_create vm structure ft = Function_finishCreation (Function_ctor vm structure) vm ft"

text \<open>
  The host's call frame and global object. The callee is a host object, which is a
  \<open>v8::Function\<close> or an object of some other class; \<open>jsDynamicCast<Function*>\<close> gives the
  function or a null pointer. \<open>argument(i)\<close> is the host's \<open>undefined\<close> past the argument
  count.
\<close>

datatype 'v JSObject = V8Function "'v Function" | OtherObject ptr

record 'v CallFrame =
  jsCallee :: "'v JSObject"
  thisValue :: 'v
  arguments :: "'v list"

record GlobalObject =
  V8GlobalInternals_isolate :: ptr
  globalObject_vm :: ptr

definition argumentCount :: "'v CallFrame \<Rightarrow> nat" where
  "argumentCount callFrame = length (arguments callFrame)"

definition argument :: "'v Host \<Rightarrow> 'v CallFrame \<Rightarrow> nat \<Rightarrow> 'v" where
  "argument H callFrame i =
     (if i < argumentCount callFrame then arguments callFrame ! i else jsUndefined H)"

fun jsDynamicCast_Function :: "'v JSObject \<Rightarrow> 'v Function option" where
  "jsDynamicCast_Function (V8Function f) = Some f"
| "jsDynamicCast_Function (OtherObject p) = None"

text \<open>Dereferencing \<open>p + i\<close> for a pointer \<open>p\<close> into a vector: nothing outside the vector.\<close>

definition ArgPointer_at :: "ArgPointer \<Rightarrow> nat \<Rightarrow> TaggedPointer option" where
  "ArgPointer_at p i =
     (if offset p + i < length (vec p) then Some (vec p ! (offset p + i)) else None)"

text \<open>
  \<open>FunctionTemplate::functionCall\<close>, lines 68 to 71: the loop over the positional arguments.
\<close>

function functionCall_loop ::
  "'v Host \<Rightarrow> HandleScope \<Rightarrow> ptr \<Rightarrow> 'v CallFrame \<Rightarrow> nat \<Rightarrow> TaggedPointer list \<Rightarrow> World
     \<Rightarrow> Failure + (TaggedPointer list \<times> World)" where
  "functionCall_loop H hs vm callFrame i args W =
     (if i < argumentCount callFrame then
        bindF (createLocal H hs vm (argument H callFrame i) W) (\<lambda>(argValue, W1).
        bindF (tagged argValue W1) (\<lambda>t.
        bindF (Vector_set args (i + 1) t) (\<lambda>args1.
        functionCall_loop H hs vm callFrame (i + 1) args1 W1)))
      else Inr (args, W))"
  by pat_completeness auto
termination
  by (relation "measure (\<lambda>(H, hs, vm, callFrame, i, args, W). argumentCount callFrame - i)") auto

text \<open>
  \<open>FunctionTemplate::functionCall\<close>, lines 57 to 87: everything up to the call of the native
  callback. The result is the trampoline's local variables, and the world in which the
  callback is about to run. Lines 58 and 73 go through two pointers that nothing has
  tested: \<open>callee\<close>, which is null when the cast of line 57 fails, and \<open>functionTemplate\<close>, which
  is null until \<open>finishCreation\<close>. Through a null pointer the code has undefined behaviour.
\<close>

record 'v Frame =
  fr_functionTemplate :: "'v FunctionTemplate"
  fr_isolate :: ptr
  fr_args :: "TaggedPointer list"
  fr_hs :: HandleScope
  fr_thisValue :: Local
  fr_data :: Local
  fr_implicit_args :: ImplicitArgs
  fr_info :: FunctionCallbackInfo

definition functionCall_setup ::
  "'v Host \<Rightarrow> GlobalObject \<Rightarrow> 'v CallFrame \<Rightarrow> World \<Rightarrow> Failure + ('v Frame \<times> World)" where
  "functionCall_setup H globalObject callFrame W =
     (case jsDynamicCast_Function (jsCallee callFrame) of
        None \<Rightarrow> Inl (UndefinedBehaviour NullPointerDereference)
      | Some callee \<Rightarrow>
          let functionTemplate = functionTemplate callee;
              isolate = V8GlobalInternals_isolate globalObject;
              vm = globalObject_vm globalObject;
              args = replicate (argumentCount callFrame + 1) TaggedPointer_default;
              (hs, W1) = HandleScope_ctor isolate W
          in
          bindF (createLocal H hs vm (thisValue callFrame) W1) (\<lambda>(thisValue, W2).
          bindF (tagged thisValue W2) (\<lambda>t.
          bindF (Vector_set args 0 t) (\<lambda>args1.
          bindF (functionCall_loop H hs vm callFrame 0 args1 W2) (\<lambda>(args2, W3).
          case functionTemplate of
            None \<Rightarrow> Inl (UndefinedBehaviour NullPointerDereference)
          | Some ft \<Rightarrow>
              bindF (createLocal H hs vm (m_data ft) W3) (\<lambda>(data, W4).
              bindF (tagged data W4) (\<lambda>d.
                let implicit_args =
                      \<lparr>holder = nullptr,
                       isolate = isolate,
                       context = nullptr,
                       return_value = TaggedPointer_default,
                       target = d,
                       new_target = nullptr\<rparr>;
                    info =
                      \<lparr>info_implicit_args = implicit_args,
                       info_values = \<lparr>vec = args2, offset = 1\<rparr>,
                       info_length = argumentCount callFrame\<rparr>
                in Inr (\<lparr>fr_functionTemplate = ft, fr_isolate = isolate, fr_args = args2,
                         fr_hs = hs, fr_thisValue = thisValue, fr_data = data,
                         fr_implicit_args = implicit_args, fr_info = info\<rparr>, W4))))))))"

text \<open>
  Lines 91 to 97: the value the trampoline returns for the \<open>ImplicitArgs\<close> the callback
  left, converted in the world the callback left.
\<close>

definition functionCall_result :: "'v Host \<Rightarrow> ImplicitArgs \<Rightarrow> World \<Rightarrow> 'v" where
  "functionCall_result H implicit_args W =
     (if type (return_value implicit_args) \<noteq> Type_Smi
         \<and> getPtr (return_value implicit_args) = nullptr
      then jsUndefined H
      else localToJSValue H W (return_value implicit_args))"

text \<open>
  The whole of \<open>FunctionTemplate::functionCall\<close>: set up, call \<open>m_callback\<close>, compute the
  result, and only then leave the function, which runs the destructor of \<open>hs\<close>.
\<close>

definition functionCall ::
  "'v Host \<Rightarrow> GlobalObject \<Rightarrow> 'v CallFrame \<Rightarrow> World \<Rightarrow> Failure + ('v \<times> World)" where
  "functionCall H globalObject callFrame W =
     bindF (functionCall_setup H globalObject callFrame W) (\<lambda>(fr, W1).
       let (implicit_args, W2) = m_callback (fr_functionTemplate fr) (fr_info fr) W1;
           result = functionCall_result H implicit_args W2
       in Inr (result, HandleScope_dtor (fr_hs fr) W2))"

text \<open>
  The host calls an \<open>InternalFunction\<close> by jumping to its native function for calls, with a
  call frame whose callee is the function object itself. What any other native function
  does is a parameter.
\<close>

definition InternalFunction_call ::
  "(ptr \<Rightarrow> GlobalObject \<Rightarrow> 'v CallFrame \<Rightarrow> World \<Rightarrow> Failure + ('v \<times> World)) \<Rightarrow> 'v Host
     \<Rightarrow> 'v Function \<Rightarrow> GlobalObject \<Rightarrow> 'v \<Rightarrow> 'v list \<Rightarrow> World \<Rightarrow> Failure + ('v \<times> World)" where
  "InternalFunction_call other H fn globalObject this args W =
     (let callFrame = \<lparr>jsCallee = V8Function fn, thisValue = this, arguments = args\<rparr>
      in case m_functionForCall fn of
           FunctionTemplate_functionCall \<Rightarrow> functionCall H globalObject callFrame W
         | OtherNativeFunction p \<Rightarrow> other p globalObject callFrame W)"

section \<open>A small host for concrete calls\<close>

text \<open>
  Host values for running the trampoline on concrete calls: \<open>undefined\<close>, 32-bit integers
  (held as small integers) and heap cells. This host keeps \<open>undefined\<close> in a cell of its own
  at address 1.
\<close>

datatype ExampleValue = ExUndefined | ExInt32 int | ExCell ptr

fun example_toTagged :: "ExampleValue \<Rightarrow> TaggedPointer" where
  "example_toTagged ExUndefined = HeapPointer 1"
| "example_toTagged (ExInt32 n) = Smi n"
| "example_toTagged (ExCell a) = HeapPointer a"

fun example_localToJSValue :: "World \<Rightarrow> TaggedPointer \<Rightarrow> ExampleValue" where
  "example_localToJSValue W (Smi n) = ExInt32 n"
| "example_localToJSValue W (HeapPointer a) = (if a = 1 then ExUndefined else ExCell a)"
| "example_localToJSValue W Empty = ExCell 0"

definition exampleHost :: "ExampleValue Host" where
  "exampleHost =
     \<lparr>toTagged = example_toTagged, localToJSValue = example_localToJSValue,
      jsUndefined = ExUndefined\<rparr>"

definition emptyWorld :: World where
  "emptyWorld = \<lparr>currentHandleScope = (\<lambda>i. None), buffers = (\<lambda>b. None), fresh = 1\<rparr>"

definition exampleGlobalObject :: GlobalObject where
  "exampleGlobalObject = \<lparr>V8GlobalInternals_isolate = 100, globalObject_vm = 200\<rparr>"

text \<open>Native callbacks: one sets no return value, one returns a given tagged value, one
  returns its first argument, one returns the data value of its function template.\<close>

definition callback_nothing :: FunctionCallback where
  "callback_nothing info W = (info_implicit_args info, W)"

definition callback_return :: "TaggedPointer \<Rightarrow> FunctionCallback" where
  "callback_return t info W = ((info_implicit_args info)\<lparr>return_value := t\<rparr>, W)"

definition callback_first_argument :: FunctionCallback where
  "callback_first_argument info W =
     (case ArgPointer_at (info_values info) 0 of
        None \<Rightarrow> (info_implicit_args info, W)
      | Some t \<Rightarrow> ((info_implicit_args info)\<lparr>return_value := t\<rparr>, W))"

definition callback_data :: FunctionCallback where
  "callback_data info W =
     ((info_implicit_args info)\<lparr>return_value := target (info_implicit_args info)\<rparr>, W)"



definition exampleFunction :: "FunctionCallback \<Rightarrow> ExampleValue \<Rightarrow> ExampleValue Function" where
  "exampleFunction callback data =
     Function_create 200 300 (FunctionTemplate_create 200 400 callback data)"

definition exampleCall ::
  "FunctionCallback \<Rightarrow> ExampleValue \<Rightarrow> ExampleValue \<Rightarrow> ExampleValue list \<Rightarrow> ExampleValue CallFrame" where
  "exampleCall callback data this args =
     \<lparr>jsCallee = V8Function (exampleFunction callback data), thisValue = this, arguments = args\<rparr>"



section \<open>The trampoline in closed form\<close>

lemma bindF_Inr [simp]: "bindF (Inr x) f = f x"
  by (simp add: bindF_def)

lemma bindF_Inl [simp]: "bindF (Inl e) f = Inl e"
  by (simp add: bindF_def)

lemma createLocal_live:
  "buffers W (buffer hs) = Some slots \<Longrightarrow>
   createLocal H hs vm v W =
     Inr (\<lparr>slot_buffer = buffer hs, slot_index = length slots\<rparr>,
          W\<lparr>buffers := (buffers W)(buffer hs \<mapsto> slots @ [toTagged H v])\<rparr>)"
  by (simp add: createLocal_def)

lemma tagged_new_slot:
  "tagged \<lparr>slot_buffer = b, slot_index = length slots\<rparr>
          (W\<lparr>buffers := (buffers W)(b \<mapsto> slots @ [t])\<rparr>) = Inr t"
  by (simp add: tagged_def slot_read_def)

declare functionCall_loop.simps [simp del]

lemma functionCall_loop_closed:
  "buffers W (buffer hs) = Some slots \<Longrightarrow> length args = argumentCount callFrame + 1 \<Longrightarrow>
   i \<le> argumentCount callFrame \<Longrightarrow>
   functionCall_loop H hs vm callFrame i args W =
     Inr (take (Suc i) args @ map (toTagged H) (drop i (arguments callFrame)),
          W\<lparr>buffers := (buffers W)(buffer hs \<mapsto>
               slots @ map (toTagged H) (drop i (arguments callFrame)))\<rparr>)"
proof (induction H hs vm callFrame i args W arbitrary: slots rule: functionCall_loop.induct)
  case (1 H hs vm callFrame i args W)
  let ?n = "argumentCount callFrame"
  show ?case
  proof (cases "i < ?n")
    case False
    with "1.prems" have "i = ?n" by simp
    then have dr: "drop i (arguments callFrame) = []" and tk0: "take (Suc i) args = args"
      using "1.prems"(2) by (simp_all add: argumentCount_def)
    have same: "W\<lparr>buffers := (buffers W)(buffer hs \<mapsto> slots)\<rparr> = W"
      using "1.prems"(1) by (simp add: fun_upd_idem)
    show ?thesis
      by (subst functionCall_loop.simps) (simp add: False dr tk0 same)
  next
    case True
    let ?t = "toTagged H (argument H callFrame i)"
    let ?W1 = "W\<lparr>buffers := (buffers W)(buffer hs \<mapsto> slots @ [?t])\<rparr>"
    let ?l = "\<lparr>slot_buffer = buffer hs, slot_index = length slots\<rparr>"
    have c: "createLocal H hs vm (argument H callFrame i) W = Inr (?l, ?W1)"
      using "1.prems"(1) by (rule createLocal_live)
    have t: "tagged ?l ?W1 = Inr ?t"
      by (rule tagged_new_slot)
    have v: "Vector_set args (i + 1) ?t = Inr (args[i + 1 := ?t])"
      using True "1.prems"(2) by (simp add: Vector_set_def)
    have b1: "buffers ?W1 (buffer hs) = Some (slots @ [?t])" by simp
    have l1: "length (args[i + 1 := ?t]) = ?n + 1" using "1.prems"(2) by simp
    have i1: "i + 1 \<le> ?n" using True by simp
    have ih: "functionCall_loop H hs vm callFrame (i + 1) (args[i + 1 := ?t]) ?W1 =
        Inr (take (Suc (i + 1)) (args[i + 1 := ?t]) @ map (toTagged H) (drop (i + 1) (arguments callFrame)),
             ?W1\<lparr>buffers := (buffers ?W1)(buffer hs \<mapsto>
               (slots @ [?t]) @ map (toTagged H) (drop (i + 1) (arguments callFrame)))\<rparr>)"
      using "1.IH" [OF True b1 l1 i1] .
    have arg: "argument H callFrame i = arguments callFrame ! i"
      using True by (simp add: argument_def)
    have d: "map (toTagged H) (drop i (arguments callFrame)) =
        ?t # map (toTagged H) (drop (i + 1) (arguments callFrame))"
      using True Cons_nth_drop_Suc [of i "arguments callFrame", symmetric]
      by (simp add: arg argumentCount_def)
    have e1: "take (Suc (i + 1)) (args[i + 1 := ?t]) @ map (toTagged H) (drop (i + 1) (arguments callFrame)) =
        take (Suc i) args @ map (toTagged H) (drop i (arguments callFrame))"
      using True "1.prems"(2) by (simp add: d take_Suc_conv_app_nth)
    have e2: "?W1\<lparr>buffers := (buffers ?W1)(buffer hs \<mapsto>
               (slots @ [?t]) @ map (toTagged H) (drop (i + 1) (arguments callFrame)))\<rparr> =
             W\<lparr>buffers := (buffers W)(buffer hs \<mapsto>
               slots @ map (toTagged H) (drop i (arguments callFrame)))\<rparr>"
      by (simp add: d)
    have step: "functionCall_loop H hs vm callFrame i args W =
        functionCall_loop H hs vm callFrame (i + 1) (args[i + 1 := ?t]) ?W1"
      by (subst functionCall_loop.simps) (simp only: True if_True c bindF_Inr prod.case t v)
    show ?thesis
      by (simp only: step ih e1 e2)
  qed
qed

lemma functionCall_setup_closed:
  assumes callee: "jsCallee callFrame = V8Function f"
    and template: "functionTemplate f = Some ft"
  shows "functionCall_setup H globalObject callFrame W =
     (let iso = V8GlobalInternals_isolate globalObject;
          hs = HandleScope iso (currentHandleScope W iso) (fresh W);
          args = map (toTagged H) (thisValue callFrame # arguments callFrame);
          implicit_args = \<lparr>holder = nullptr, isolate = iso, context = nullptr,
             return_value = TaggedPointer_default, target = toTagged H (m_data ft),
             new_target = nullptr\<rparr>
      in Inr (\<lparr>fr_functionTemplate = ft, fr_isolate = iso, fr_args = args, fr_hs = hs,
               fr_thisValue = \<lparr>slot_buffer = fresh W, slot_index = 0\<rparr>,
               fr_data = \<lparr>slot_buffer = fresh W, slot_index = Suc (length (arguments callFrame))\<rparr>,
               fr_implicit_args = implicit_args,
               fr_info = \<lparr>info_implicit_args = implicit_args,
                  info_values = \<lparr>vec = args, offset = 1\<rparr>,
                  info_length = length (arguments callFrame)\<rparr>\<rparr>,
              W\<lparr>currentHandleScope := (currentHandleScope W)(iso := Some hs),
                buffers := (buffers W)(fresh W \<mapsto> args @ [toTagged H (m_data ft)]),
                fresh := Suc (fresh W)\<rparr>))"
proof -
  let ?iso = "V8GlobalInternals_isolate globalObject"
  let ?vm = "globalObject_vm globalObject"
  let ?n = "argumentCount callFrame"
  let ?hs = "HandleScope ?iso (currentHandleScope W ?iso) (fresh W)"
  let ?W1 = "W\<lparr>currentHandleScope := (currentHandleScope W)(?iso := Some ?hs),
                buffers := (buffers W)(fresh W \<mapsto> []), fresh := Suc (fresh W)\<rparr>"
  let ?tv = "toTagged H (thisValue callFrame)"
  let ?W2 = "?W1\<lparr>buffers := (buffers ?W1)(buffer ?hs \<mapsto> [] @ [?tv])\<rparr>"
  let ?args0 = "replicate (?n + 1) TaggedPointer_default"
  let ?args1 = "?args0[0 := ?tv]"
  let ?rest = "map (toTagged H) (drop 0 (arguments callFrame))"
  let ?W3 = "?W2\<lparr>buffers := (buffers ?W2)(buffer ?hs \<mapsto> [?tv] @ ?rest)\<rparr>"
  let ?d = "toTagged H (m_data ft)"
  let ?W4 = "?W3\<lparr>buffers := (buffers ?W3)(buffer ?hs \<mapsto> ([?tv] @ ?rest) @ [?d])\<rparr>"
  have ctor: "HandleScope_ctor ?iso W = (?hs, ?W1)"
    by (simp add: HandleScope_ctor_def Let_def)
  have c1: "createLocal H ?hs ?vm (thisValue callFrame) ?W1 =
      Inr (\<lparr>slot_buffer = buffer ?hs, slot_index = length ([]::TaggedPointer list)\<rparr>, ?W2)"
    by (rule createLocal_live) simp
  have t1: "tagged \<lparr>slot_buffer = buffer ?hs, slot_index = length ([]::TaggedPointer list)\<rparr> ?W2 = Inr ?tv"
    by (rule tagged_new_slot)
  have v1: "Vector_set ?args0 0 ?tv = Inr ?args1"
    by (simp add: Vector_set_def)
  have lp: "functionCall_loop H ?hs ?vm callFrame 0 ?args1 ?W2 =
      Inr (take (Suc 0) ?args1 @ ?rest, ?W3)"
    by (rule functionCall_loop_closed) simp_all
  have c2: "createLocal H ?hs ?vm (m_data ft) ?W3 =
      Inr (\<lparr>slot_buffer = buffer ?hs, slot_index = length ([?tv] @ ?rest)\<rparr>, ?W4)"
    by (rule createLocal_live) simp
  have t2: "tagged \<lparr>slot_buffer = buffer ?hs, slot_index = length ([?tv] @ ?rest)\<rparr> ?W4 = Inr ?d"
    by (rule tagged_new_slot)
  have closed: "functionCall_setup H globalObject callFrame W =
      Inr (\<lparr>fr_functionTemplate = ft, fr_isolate = ?iso, fr_args = take (Suc 0) ?args1 @ ?rest,
            fr_hs = ?hs,
            fr_thisValue = \<lparr>slot_buffer = buffer ?hs, slot_index = length ([]::TaggedPointer list)\<rparr>,
            fr_data = \<lparr>slot_buffer = buffer ?hs, slot_index = length ([?tv] @ ?rest)\<rparr>,
            fr_implicit_args = \<lparr>holder = nullptr, isolate = ?iso, context = nullptr,
               return_value = TaggedPointer_default, target = ?d, new_target = nullptr\<rparr>,
            fr_info = \<lparr>info_implicit_args = \<lparr>holder = nullptr, isolate = ?iso, context = nullptr,
               return_value = TaggedPointer_default, target = ?d, new_target = nullptr\<rparr>,
               info_values = \<lparr>vec = take (Suc 0) ?args1 @ ?rest, offset = 1\<rparr>,
               info_length = ?n\<rparr>\<rparr>, ?W4)"
    unfolding functionCall_setup_def
    by (simp only: callee template jsDynamicCast_Function.simps option.case Let_def ctor
          prod.case c1 bindF_Inr t1 v1 lp c2 t2)
  have a: "take (Suc 0) ?args1 @ ?rest = map (toTagged H) (thisValue callFrame # arguments callFrame)"
    by simp
  have w: "?W4 = W\<lparr>currentHandleScope := (currentHandleScope W)(?iso := Some ?hs),
                buffers := (buffers W)(fresh W \<mapsto>
                  map (toTagged H) (thisValue callFrame # arguments callFrame) @ [?d]),
                fresh := Suc (fresh W)\<rparr>"
    by simp
  show ?thesis
    unfolding closed a w by (simp add: Let_def argumentCount_def)
qed

lemma functionCall_setup_succeeds:
  assumes callee: "jsCallee callFrame = V8Function f"
    and template: "functionTemplate f = Some ft"
  obtains fr W1 where "functionCall_setup H globalObject callFrame W = Inr (fr, W1)"
    and "fr_functionTemplate fr = ft"
    and "fr_args fr = map (toTagged H) (thisValue callFrame # arguments callFrame)"
    and "fr_hs fr = HandleScope (V8GlobalInternals_isolate globalObject)
           (currentHandleScope W (V8GlobalInternals_isolate globalObject)) (fresh W)"
    and "fr_data fr = \<lparr>slot_buffer = fresh W, slot_index = Suc (length (arguments callFrame))\<rparr>"
    and "fr_implicit_args fr = \<lparr>holder = nullptr, isolate = V8GlobalInternals_isolate globalObject,
           context = nullptr, return_value = TaggedPointer_default,
           target = toTagged H (m_data ft), new_target = nullptr\<rparr>"
    and "fr_info fr = \<lparr>info_implicit_args = fr_implicit_args fr,
           info_values = \<lparr>vec = fr_args fr, offset = 1\<rparr>,
           info_length = length (arguments callFrame)\<rparr>"
    and "W1 = W\<lparr>currentHandleScope := (currentHandleScope W)
                  (V8GlobalInternals_isolate globalObject := Some (fr_hs fr)),
                buffers := (buffers W)(fresh W \<mapsto> fr_args fr @ [toTagged H (m_data ft)]),
                fresh := Suc (fresh W)\<rparr>"
  using functionCall_setup_closed [OF callee template, of H globalObject W]
  by (simp add: Let_def)

lemma functionCall_closed:
  assumes callee: "jsCallee callFrame = V8Function f"
    and template: "functionTemplate f = Some ft"
    and su: "functionCall_setup H globalObject callFrame W = Inr (fr, W1)"
  shows "functionCall H globalObject callFrame W =
     Inr (functionCall_result H (fst (m_callback ft (fr_info fr) W1)) (snd (m_callback ft (fr_info fr) W1)),
          HandleScope_dtor (fr_hs fr) (snd (m_callback ft (fr_info fr) W1)))"
proof -
  have "fr_functionTemplate fr = ft"
    using su functionCall_setup_closed [OF callee template, of H globalObject W]
    by (auto simp: Let_def)
  then show ?thesis
    by (simp add: functionCall_def su Let_def split_beta)
qed

lemma functionCall_result_unset:
  "return_value implicit_args = TaggedPointer_default \<Longrightarrow>
   functionCall_result H implicit_args W = jsUndefined H"
  by (simp add: functionCall_result_def TaggedPointer_default_def)

lemma functionCall_result_legitimate:
  "legitimate (return_value implicit_args) \<Longrightarrow>
   functionCall_result H implicit_args W = localToJSValue H W (return_value implicit_args)"
  by (cases "return_value implicit_args") (simp_all add: functionCall_result_def)

lemma legitimate_not_default: "legitimate v \<Longrightarrow> v \<noteq> TaggedPointer_default"
  by (cases v) (simp_all add: TaggedPointer_default_def)

section \<open>Concrete calls\<close>

lemma exampleCall_callee:
  "jsCallee (exampleCall callback data this args) = V8Function (exampleFunction callback data)"
  by (simp add: exampleCall_def)

lemma exampleFunction_template:
  "functionTemplate (exampleFunction callback data) =
     Some (FunctionTemplate_create 200 400 callback data)"
  by (simp add: exampleFunction_def Function_create_def Function_finishCreation_def)


section \<open>The argument vector and the callback's view of it\<close>

text \<open>
  Claim C1. For a call with this-value \<open>X\<close> and positional arguments \<open>A1..An\<close> whose callee
  is a \<open>v8::Function\<close> with a function template, the trampoline reaches the callback with an
  argument vector of exactly \<open>n + 1\<close> tagged pointers: slot 0 holds the tagged representation
  of \<open>X\<close>, slot \<open>i\<close> (for \<open>1 \<le> i \<le> n\<close>) that of \<open>Ai\<close>. The \<open>FunctionCallbackInfo\<close> it hands to
  the callback points one slot into that vector and has length \<open>n\<close>, so index \<open>i\<close> of the
  callback's view is the tagged \<open>A(i+1)\<close>: index 0 is the first positional argument, not the
  this-value. The last conjunct says that it is this info that \<open>m_callback\<close> receives.
\<close>

theorem functionCall_argument_buffer:
  assumes callee: "jsCallee callFrame = V8Function f"
    and template: "functionTemplate f = Some ft"
  shows "\<exists>fr W1. functionCall_setup H globalObject callFrame W = Inr (fr, W1)
     \<and> length (fr_args fr) = argumentCount callFrame + 1
     \<and> fr_args fr ! 0 = toTagged H (thisValue callFrame)
     \<and> (\<forall>i. 1 \<le> i \<and> i \<le> argumentCount callFrame \<longrightarrow>
            fr_args fr ! i = toTagged H (arguments callFrame ! (i - 1)))
     \<and> info_values (fr_info fr) = \<lparr>vec = fr_args fr, offset = 1\<rparr>
     \<and> info_length (fr_info fr) = argumentCount callFrame
     \<and> (\<forall>i<argumentCount callFrame.
            ArgPointer_at (info_values (fr_info fr)) i = Some (toTagged H (arguments callFrame ! i)))
     \<and> functionCall H globalObject callFrame W =
          Inr (functionCall_result H (fst (m_callback ft (fr_info fr) W1))
                 (snd (m_callback ft (fr_info fr) W1)),
               HandleScope_dtor (fr_hs fr) (snd (m_callback ft (fr_info fr) W1)))"
proof -
  obtain fr W1 where su: "functionCall_setup H globalObject callFrame W = Inr (fr, W1)"
    and args: "fr_args fr = map (toTagged H) (thisValue callFrame # arguments callFrame)"
    and vals: "info_values (fr_info fr) = \<lparr>vec = fr_args fr, offset = 1\<rparr>"
    and len: "info_length (fr_info fr) = length (arguments callFrame)"
    using functionCall_setup_closed [OF callee template, of H globalObject W]
    by (simp add: Let_def)
  have call: "functionCall H globalObject callFrame W =
          Inr (functionCall_result H (fst (m_callback ft (fr_info fr) W1))
                 (snd (m_callback ft (fr_info fr) W1)),
               HandleScope_dtor (fr_hs fr) (snd (m_callback ft (fr_info fr) W1)))"
    using callee template su by (rule functionCall_closed)
  have pos: "\<forall>i. 1 \<le> i \<and> i \<le> argumentCount callFrame \<longrightarrow>
            fr_args fr ! i = toTagged H (arguments callFrame ! (i - 1))"
    by (auto simp: args argumentCount_def nth_Cons')
  have seen: "\<forall>i<argumentCount callFrame.
            ArgPointer_at (info_values (fr_info fr)) i = Some (toTagged H (arguments callFrame ! i))"
    by (simp add: vals args ArgPointer_at_def argumentCount_def)
  show ?thesis
    using su call pos seen by (simp add: args vals len argumentCount_def)
qed

text \<open>
  The call \<open>f.call(cell 5, 10, 20)\<close> of a function whose callback returns its argument 0
  gives 10.
\<close>

theorem functionCall_argument_buffer_witness:
  "jsCallee (exampleCall callback_first_argument (ExCell 8) (ExCell 5) [ExInt32 10, ExInt32 20]) =
     V8Function (exampleFunction callback_first_argument (ExCell 8))
   \<and> functionTemplate (exampleFunction callback_first_argument (ExCell 8)) =
     Some (FunctionTemplate_create 200 400 callback_first_argument (ExCell 8))
   \<and> (\<exists>W'. functionCall exampleHost exampleGlobalObject
          (exampleCall callback_first_argument (ExCell 8) (ExCell 5) [ExInt32 10, ExInt32 20])
          emptyWorld = Inr (ExInt32 10, W'))"
proof -
  let ?cf = "exampleCall callback_first_argument (ExCell 8) (ExCell 5) [ExInt32 10, ExInt32 20]"
  let ?ft = "FunctionTemplate_create 200 400 callback_first_argument (ExCell 8)"
  have callee: "jsCallee ?cf = V8Function (exampleFunction callback_first_argument (ExCell 8))"
    by (rule exampleCall_callee)
  have template: "functionTemplate (exampleFunction callback_first_argument (ExCell 8)) = Some ?ft"
    by (rule exampleFunction_template)
  obtain fr :: "ExampleValue Frame" and W1 where
    seen: "\<forall>i<argumentCount ?cf.
        ArgPointer_at (info_values (fr_info fr)) i = Some (toTagged exampleHost (arguments ?cf ! i))"
    and call: "functionCall exampleHost exampleGlobalObject ?cf emptyWorld =
        Inr (functionCall_result exampleHost (fst (m_callback ?ft (fr_info fr) W1))
               (snd (m_callback ?ft (fr_info fr) W1)),
             HandleScope_dtor (fr_hs fr) (snd (m_callback ?ft (fr_info fr) W1)))"
    using functionCall_argument_buffer [OF callee template, of exampleHost exampleGlobalObject emptyWorld]
    by blast
  have "ArgPointer_at (info_values (fr_info fr)) 0 = Some (Smi 10)"
    using seen by (simp add: argumentCount_def exampleCall_def exampleHost_def)
  then have "m_callback ?ft (fr_info fr) W1 =
      ((info_implicit_args (fr_info fr))\<lparr>return_value := Smi 10\<rparr>, W1)"
    by (simp add: FunctionTemplate_create_def callback_first_argument_def)
  then have "functionCall exampleHost exampleGlobalObject ?cf emptyWorld =
      Inr (ExInt32 10, HandleScope_dtor (fr_hs fr) W1)"
    using call by (simp add: functionCall_result_def exampleHost_def)
  then show ?thesis
    using callee template by blast
qed

section \<open>The return value\<close>

text \<open>
  Claim C2. The \<open>ImplicitArgs\<close> that the callback receives has its return-value slot set to
  the "unset" sentinel \<open>TaggedPointer()\<close>, which is not a small integer. If the slot still
  holds the sentinel when the callback returns, the call's result is the host's \<open>undefined\<close>.
\<close>

theorem functionCall_unset_return_value:
  assumes callee: "jsCallee callFrame = V8Function f"
    and template: "functionTemplate f = Some ft"
  shows "\<exists>fr W1. functionCall_setup H globalObject callFrame W = Inr (fr, W1)
     \<and> return_value (info_implicit_args (fr_info fr)) = TaggedPointer_default
     \<and> type TaggedPointer_default \<noteq> Type_Smi
     \<and> (return_value (fst (m_callback ft (fr_info fr) W1)) = TaggedPointer_default \<longrightarrow>
          functionCall H globalObject callFrame W =
            Inr (jsUndefined H, HandleScope_dtor (fr_hs fr) (snd (m_callback ft (fr_info fr) W1))))"
proof -
  obtain fr W1 where su: "functionCall_setup H globalObject callFrame W = Inr (fr, W1)"
    and ia: "fr_implicit_args fr = \<lparr>holder = nullptr, isolate = V8GlobalInternals_isolate globalObject,
           context = nullptr, return_value = TaggedPointer_default,
           target = toTagged H (m_data ft), new_target = nullptr\<rparr>"
    and info: "fr_info fr = \<lparr>info_implicit_args = fr_implicit_args fr,
           info_values = \<lparr>vec = fr_args fr, offset = 1\<rparr>,
           info_length = length (arguments callFrame)\<rparr>"
    using callee template by (rule functionCall_setup_succeeds)
  have unset: "return_value (info_implicit_args (fr_info fr)) = TaggedPointer_default"
    by (simp add: info ia)
  have call: "functionCall H globalObject callFrame W =
      Inr (functionCall_result H (fst (m_callback ft (fr_info fr) W1)) (snd (m_callback ft (fr_info fr) W1)),
           HandleScope_dtor (fr_hs fr) (snd (m_callback ft (fr_info fr) W1)))"
    using callee template su by (rule functionCall_closed)
  show ?thesis
    using su unset call by (simp add: functionCall_result_unset TaggedPointer_default_def)
qed

theorem functionCall_unset_return_value_witness:
  "jsCallee (exampleCall callback_nothing (ExCell 8) (ExCell 5) [ExInt32 10]) =
     V8Function (exampleFunction callback_nothing (ExCell 8))
   \<and> functionTemplate (exampleFunction callback_nothing (ExCell 8)) =
     Some (FunctionTemplate_create 200 400 callback_nothing (ExCell 8))
   \<and> (\<exists>W'. functionCall exampleHost exampleGlobalObject
          (exampleCall callback_nothing (ExCell 8) (ExCell 5) [ExInt32 10]) emptyWorld =
        Inr (ExUndefined, W'))"
proof -
  let ?cf = "exampleCall callback_nothing (ExCell 8) (ExCell 5) [ExInt32 10]"
  let ?ft = "FunctionTemplate_create 200 400 callback_nothing (ExCell 8)"
  have callee: "jsCallee ?cf = V8Function (exampleFunction callback_nothing (ExCell 8))"
    by (rule exampleCall_callee)
  have template: "functionTemplate (exampleFunction callback_nothing (ExCell 8)) = Some ?ft"
    by (rule exampleFunction_template)
  obtain fr :: "ExampleValue Frame" and W1 where
    unset: "return_value (info_implicit_args (fr_info fr)) = TaggedPointer_default"
    and call: "return_value (fst (m_callback ?ft (fr_info fr) W1)) = TaggedPointer_default \<longrightarrow>
        functionCall exampleHost exampleGlobalObject ?cf emptyWorld =
        Inr (jsUndefined exampleHost,
             HandleScope_dtor (fr_hs fr) (snd (m_callback ?ft (fr_info fr) W1)))"
    using functionCall_unset_return_value [OF callee template, of exampleHost exampleGlobalObject emptyWorld]
    by blast
  have "m_callback ?ft (fr_info fr) W1 = (info_implicit_args (fr_info fr), W1)"
    by (simp add: FunctionTemplate_create_def callback_nothing_def)
  then have "functionCall exampleHost exampleGlobalObject ?cf emptyWorld =
      Inr (ExUndefined, HandleScope_dtor (fr_hs fr) W1)"
    using call unset by (simp add: exampleHost_def)
  then show ?thesis
    using callee template by blast
qed

text \<open>
  Claim C3. If the callback leaves a legitimate encoded value in the return-value slot (any
  small integer, or a pointer to a heap cell, such as a host's encoding of \<open>undefined\<close>), the
  call's result is that value converted to the host's representation, in the world the
  callback left. No legitimate value equals the sentinel, so a return value that was set
  is never replaced by \<open>undefined\<close>.
\<close>

theorem functionCall_set_return_value:
  assumes callee: "jsCallee callFrame = V8Function f"
    and template: "functionTemplate f = Some ft"
  shows "\<exists>fr W1. functionCall_setup H globalObject callFrame W = Inr (fr, W1)
     \<and> (legitimate (return_value (fst (m_callback ft (fr_info fr) W1))) \<longrightarrow>
          functionCall H globalObject callFrame W =
            Inr (localToJSValue H (snd (m_callback ft (fr_info fr) W1))
                   (return_value (fst (m_callback ft (fr_info fr) W1))),
                 HandleScope_dtor (fr_hs fr) (snd (m_callback ft (fr_info fr) W1))))
     \<and> (\<forall>v. legitimate v \<longrightarrow> v \<noteq> TaggedPointer_default)
     \<and> (\<forall>n. legitimate (Smi n))"
proof -
  obtain fr W1 where su: "functionCall_setup H globalObject callFrame W = Inr (fr, W1)"
    using callee template by (rule functionCall_setup_succeeds)
  have call: "functionCall H globalObject callFrame W =
      Inr (functionCall_result H (fst (m_callback ft (fr_info fr) W1)) (snd (m_callback ft (fr_info fr) W1)),
           HandleScope_dtor (fr_hs fr) (snd (m_callback ft (fr_info fr) W1)))"
    using callee template su by (rule functionCall_closed)
  show ?thesis
    using su call by (simp add: functionCall_result_legitimate legitimate_not_default)
qed

theorem functionCall_set_return_value_witness:
  "jsCallee (exampleCall (callback_return (example_toTagged ExUndefined)) (ExCell 8) (ExCell 5) []) =
     V8Function (exampleFunction (callback_return (example_toTagged ExUndefined)) (ExCell 8))
   \<and> functionTemplate (exampleFunction (callback_return (example_toTagged ExUndefined)) (ExCell 8)) =
     Some (FunctionTemplate_create 200 400 (callback_return (example_toTagged ExUndefined)) (ExCell 8))
   \<and> legitimate (example_toTagged ExUndefined)
   \<and> (\<exists>W'. functionCall exampleHost exampleGlobalObject
          (exampleCall (callback_return (example_toTagged ExUndefined)) (ExCell 8) (ExCell 5) [])
          emptyWorld =
        Inr (ExUndefined, W'))"
proof -
  let ?cb = "callback_return (example_toTagged ExUndefined)"
  let ?cf = "exampleCall ?cb (ExCell 8) (ExCell 5) []"
  let ?ft = "FunctionTemplate_create 200 400 ?cb (ExCell 8)"
  have callee: "jsCallee ?cf = V8Function (exampleFunction ?cb (ExCell 8))"
    by (rule exampleCall_callee)
  have template: "functionTemplate (exampleFunction ?cb (ExCell 8)) = Some ?ft"
    by (rule exampleFunction_template)
  have legit: "legitimate (example_toTagged ExUndefined)"
    by (simp add: nullptr_def)
  obtain fr :: "ExampleValue Frame" and W1 where
    call: "legitimate (return_value (fst (m_callback ?ft (fr_info fr) W1))) \<longrightarrow>
        functionCall exampleHost exampleGlobalObject ?cf emptyWorld =
        Inr (localToJSValue exampleHost (snd (m_callback ?ft (fr_info fr) W1))
               (return_value (fst (m_callback ?ft (fr_info fr) W1))),
             HandleScope_dtor (fr_hs fr) (snd (m_callback ?ft (fr_info fr) W1)))"
    using functionCall_set_return_value [OF callee template, of exampleHost exampleGlobalObject emptyWorld]
    by blast
  have cb: "m_callback ?ft (fr_info fr) W1 =
      ((info_implicit_args (fr_info fr))\<lparr>return_value := example_toTagged ExUndefined\<rparr>, W1)"
    by (simp add: FunctionTemplate_create_def callback_return_def)
  have "functionCall exampleHost exampleGlobalObject ?cf emptyWorld =
      Inr (ExUndefined, HandleScope_dtor (fr_hs fr) W1)"
    using call [unfolded cb] legit by (simp add: exampleHost_def)
  then show ?thesis
    using callee template legit by blast
qed

section \<open>The data value of the function template\<close>

text \<open>
  Claim C4. Before the callback runs, the trampoline stores the template's data value in a
  handle slot of its own \<open>HandleScope\<close>, which is the isolate's active scope when the callback
  starts; the \<open>target\<close> field that the callback reads is the tagged representation of exactly
  the value passed to \<open>FunctionTemplate::create\<close>. This holds in every world \<open>W\<close> at the time of
  the call, so also when the scope in which the template was created is gone: the
  template holds the host value itself, and \<open>visitChildrenImpl\<close> reports it to the collector.
  If the host's conversion gives back \<open>data\<close> from its tagged representation, the callback
  converts what it reads to \<open>data\<close>.
\<close>

theorem functionCall_data_rooted:
  assumes callee: "jsCallee callFrame = V8Function f"
    and template: "functionTemplate f = Some (FunctionTemplate_create vm0 structure callback data)"
  shows "\<exists>fr W1. functionCall_setup H globalObject callFrame W = Inr (fr, W1)
     \<and> slot_buffer (fr_data fr) = buffer (fr_hs fr)
     \<and> currentHandleScope W1 (V8GlobalInternals_isolate globalObject) = Some (fr_hs fr)
     \<and> slot_read W1 (fr_data fr) = Some (toTagged H data)
     \<and> target (info_implicit_args (fr_info fr)) = toTagged H data
     \<and> functionCall H globalObject callFrame W =
          Inr (functionCall_result H (fst (callback (fr_info fr) W1)) (snd (callback (fr_info fr) W1)),
               HandleScope_dtor (fr_hs fr) (snd (callback (fr_info fr) W1)))
     \<and> (localToJSValue H W1 (toTagged H data) = data \<longrightarrow>
          localToJSValue H W1 (target (info_implicit_args (fr_info fr))) = data)
     \<and> data \<in> set (visitChildrenImpl Base_visitChildren
                      (FunctionTemplate_create vm0 structure callback data) visitor)"
proof -
  let ?ft = "FunctionTemplate_create vm0 structure callback data"
  let ?iso = "V8GlobalInternals_isolate globalObject"
  have md: "m_data ?ft = data" and mc: "m_callback ?ft = callback"
    by (simp_all add: FunctionTemplate_create_def)
  obtain fr W1 where su: "functionCall_setup H globalObject callFrame W = Inr (fr, W1)"
    and args: "fr_args fr = map (toTagged H) (thisValue callFrame # arguments callFrame)"
    and hs: "fr_hs fr = HandleScope ?iso (currentHandleScope W ?iso) (fresh W)"
    and dat: "fr_data fr = \<lparr>slot_buffer = fresh W, slot_index = Suc (length (arguments callFrame))\<rparr>"
    and ia: "fr_implicit_args fr = \<lparr>holder = nullptr, isolate = ?iso,
           context = nullptr, return_value = TaggedPointer_default,
           target = toTagged H (m_data ?ft), new_target = nullptr\<rparr>"
    and info: "fr_info fr = \<lparr>info_implicit_args = fr_implicit_args fr,
           info_values = \<lparr>vec = fr_args fr, offset = 1\<rparr>,
           info_length = length (arguments callFrame)\<rparr>"
    and w1: "W1 = W\<lparr>currentHandleScope := (currentHandleScope W)(?iso := Some (fr_hs fr)),
                buffers := (buffers W)(fresh W \<mapsto> fr_args fr @ [toTagged H (m_data ?ft)]),
                fresh := Suc (fresh W)\<rparr>"
    using callee template by (rule functionCall_setup_succeeds)
  have call: "functionCall H globalObject callFrame W =
      Inr (functionCall_result H (fst (callback (fr_info fr) W1)) (snd (callback (fr_info fr) W1)),
           HandleScope_dtor (fr_hs fr) (snd (callback (fr_info fr) W1)))"
    using functionCall_closed [OF callee template su] by (simp only: mc)
  have own: "slot_buffer (fr_data fr) = buffer (fr_hs fr)"
    by (simp add: dat hs)
  have cur: "currentHandleScope W1 ?iso = Some (fr_hs fr)"
    by (simp add: w1)
  have rd: "slot_read W1 (fr_data fr) = Some (toTagged H data)"
    by (simp add: w1 dat slot_read_def args md nth_append)
  have tg: "target (info_implicit_args (fr_info fr)) = toTagged H data"
    by (simp add: info ia md)
  have gc: "data \<in> set (visitChildrenImpl Base_visitChildren ?ft visitor)"
    by (simp add: visitChildrenImpl_def md)
  show ?thesis
    using su own cur rd tg call gc by simp
qed

theorem functionCall_data_rooted_witness:
  "jsCallee (exampleCall callback_data (ExCell 8) (ExCell 5) []) =
     V8Function (exampleFunction callback_data (ExCell 8))
   \<and> functionTemplate (exampleFunction callback_data (ExCell 8)) =
     Some (FunctionTemplate_create 200 400 callback_data (ExCell 8))
   \<and> (\<exists>W'. functionCall exampleHost exampleGlobalObject
          (exampleCall callback_data (ExCell 8) (ExCell 5) [])
          (HandleScope_dtor (fst (HandleScope_ctor 100 emptyWorld))
             (snd (HandleScope_ctor 100 emptyWorld))) =
        Inr (ExCell 8, W'))"
proof -
  let ?cf = "exampleCall callback_data (ExCell 8) (ExCell 5) []"
  let ?W = "HandleScope_dtor (fst (HandleScope_ctor 100 emptyWorld))
             (snd (HandleScope_ctor 100 emptyWorld))"
  have callee: "jsCallee ?cf = V8Function (exampleFunction callback_data (ExCell 8))"
    by (rule exampleCall_callee)
  have template: "functionTemplate (exampleFunction callback_data (ExCell 8)) =
      Some (FunctionTemplate_create 200 400 callback_data (ExCell 8))"
    by (rule exampleFunction_template)
  obtain fr :: "ExampleValue Frame" and W1 where
    tg: "target (info_implicit_args (fr_info fr)) = toTagged exampleHost (ExCell 8)"
    and call: "functionCall exampleHost exampleGlobalObject ?cf ?W =
        Inr (functionCall_result exampleHost (fst (callback_data (fr_info fr) W1))
               (snd (callback_data (fr_info fr) W1)),
             HandleScope_dtor (fr_hs fr) (snd (callback_data (fr_info fr) W1)))"
    using functionCall_data_rooted [OF callee template, of exampleHost exampleGlobalObject ?W]
    by blast
  have "functionCall exampleHost exampleGlobalObject ?cf ?W =
      Inr (ExCell 8, HandleScope_dtor (fr_hs fr) W1)"
    unfolding call
    by (simp add: callback_data_def tg functionCall_result_def exampleHost_def nullptr_def)
  then show ?thesis
    using callee template by blast
qed

section \<open>Handle scopes in last-in first-out order\<close>

lemma run_inv_start: "world_ok W \<Longrightarrow> run_inv H it W (start W)"
  by (auto simp: run_inv_def start_def world_ok_def active_def)

lemma slot_read_same:
  "buffers W1 (slot_buffer l) = buffers W (slot_buffer l) \<Longrightarrow> slot_read W1 l = slot_read W l"
  by (simp add: slot_read_def)

lemma slot_read_append:
  "buffers W b = Some slots \<Longrightarrow> slot_read W l = Some t \<Longrightarrow>
   slot_read (W\<lparr>buffers := (buffers W)(b \<mapsto> slots @ ys)\<rparr>) l = Some t"
  by (auto simp: slot_read_def nth_append split: option.splits if_splits)

lemma step_OpenScope_inv:
  assumes inv: "run_inv H it W0 R"
    and st: "step H it vm OpenScope R = Inr R1"
  shows "run_inv H it W0 R1"
proof -
  let ?W = "world R"
  let ?base = "currentHandleScope W0 it"
  let ?hs = "HandleScope it (currentHandleScope ?W it) (fresh ?W)"
  let ?W1 = "?W\<lparr>currentHandleScope := (currentHandleScope ?W)(it := Some ?hs),
                buffers := (buffers ?W)(fresh ?W \<mapsto> []), fresh := Suc (fresh ?W)\<rparr>"
  have R1: "R1 = R\<lparr>world := ?W1, opened := (?hs, currentHandleScope ?W it) # opened R\<rparr>"
    using st by (simp add: HandleScope_ctor_def Let_def)
  have fr: "fresh W0 \<le> fresh ?W"
    and live: "\<forall>b. fresh W0 \<le> b \<longrightarrow> buffers ?W b \<noteq> None \<longrightarrow> b \<in> (buffer \<circ> fst) ` set (opened R)"
    and old: "\<forall>b xs. b < fresh W0 \<longrightarrow> buffers W0 b = Some xs \<longrightarrow> (\<exists>ys. buffers ?W b = Some (xs @ ys))"
    and dist: "distinct (map (buffer \<circ> fst) (opened R))"
    and op: "\<forall>(hs, before) \<in> set (opened R).
            fresh W0 \<le> buffer hs \<and> buffer hs < fresh ?W \<and> buffers ?W (buffer hs) \<noteq> None
            \<and> hs_isolate hs = it \<and> prev hs = before \<and> hs \<notin> set (destroyed R)"
    and cur: "currentHandleScope ?W it = active ?base (opened R)"
    and lnk: "linked ?base (opened R)"
    and des: "\<forall>d \<in> set (destroyed R). buffer d < fresh ?W"
    and loc: "\<forall>(s, l, v) \<in> set (locals R). slot_buffer l = buffer s
            \<and> (s \<notin> set (destroyed R) \<longrightarrow> slot_read ?W l = Some (toTagged H v)
                 \<and> (s \<in> fst ` set (opened R) \<or> buffer s < fresh W0))"
    and res: "\<forall>(before, after) \<in> set (restored R). after = before"
    using inv by (simp_all add: run_inv_def)
  have notin: "fresh ?W \<notin> (buffer \<circ> fst) ` set (opened R)"
    using op by fastforce
  have g1: "fresh W0 \<le> fresh (world R1)"
    using fr by (simp add: R1)
  have g2: "\<forall>b. fresh W0 \<le> b \<longrightarrow> buffers (world R1) b \<noteq> None \<longrightarrow> b \<in> (buffer \<circ> fst) ` set (opened R1)"
    using live by (simp add: R1)
  have g3: "\<forall>b xs. b < fresh W0 \<longrightarrow> buffers W0 b = Some xs \<longrightarrow> (\<exists>ys. buffers (world R1) b = Some (xs @ ys))"
    using old fr by (simp add: R1)
  have g4: "distinct (map (buffer \<circ> fst) (opened R1))"
    using dist notin by (simp add: R1)
  have g5: "\<forall>(hs, before) \<in> set (opened R1).
            fresh W0 \<le> buffer hs \<and> buffer hs < fresh (world R1) \<and> buffers (world R1) (buffer hs) \<noteq> None
            \<and> hs_isolate hs = it \<and> prev hs = before \<and> hs \<notin> set (destroyed R1)"
    using op fr des by (fastforce simp: R1)
  have g6: "currentHandleScope (world R1) it = active ?base (opened R1)"
    by (simp add: R1 active_def)
  have g7: "linked ?base (opened R1)"
    using lnk cur by (simp add: R1)
  have g8: "\<forall>d \<in> set (destroyed R1). buffer d < fresh (world R1)"
    using des by (fastforce simp: R1)
  have g9: "\<forall>(s, l, v) \<in> set (locals R1). slot_buffer l = buffer s
            \<and> (s \<notin> set (destroyed R1) \<longrightarrow> slot_read (world R1) l = Some (toTagged H v)
                 \<and> (s \<in> fst ` set (opened R1) \<or> buffer s < fresh W0))"
  proof (clarify, intro conjI impI)
    fix s l v assume m: "(s, l, v) \<in> set (locals R1)"
    then have m0: "(s, l, v) \<in> set (locals R)" by (simp add: R1)
    show sb: "slot_buffer l = buffer s" using loc m0 by fastforce
    assume nd: "s \<notin> set (destroyed R1)"
    then have nd0: "s \<notin> set (destroyed R)" by (simp add: R1)
    have rd: "slot_read ?W l = Some (toTagged H v)"
      and wh: "s \<in> fst ` set (opened R) \<or> buffer s < fresh W0"
      using loc m0 nd0 by fastforce+
    have "buffer s < fresh ?W"
      using wh op fr by fastforce
    then have "buffers ?W1 (slot_buffer l) = buffers ?W (slot_buffer l)"
      by (simp add: sb)
    then have "slot_read ?W1 l = slot_read ?W l"
      by (rule slot_read_same)
    then show "slot_read (world R1) l = Some (toTagged H v)"
      using rd by (simp add: R1)
    show "s \<in> fst ` set (opened R1) \<or> buffer s < fresh W0"
      using wh by (auto simp: R1)
  qed
  have g10: "\<forall>(before, after) \<in> set (restored R1). after = before"
    using res by (simp add: R1)
  show ?thesis
    unfolding run_inv_def using g1 g2 g3 g4 g5 g6 g7 g8 g9 g10 by blast
qed

lemma step_CreateLocal_inv:
  assumes inv: "run_inv H it W0 R"
    and st: "step H it vm (CreateLocal x) R = Inr R1"
  shows "run_inv H it W0 R1"
proof -
  let ?W = "world R"
  let ?base = "currentHandleScope W0 it"
  have fr: "fresh W0 \<le> fresh ?W"
    and live: "\<forall>b. fresh W0 \<le> b \<longrightarrow> buffers ?W b \<noteq> None \<longrightarrow> b \<in> (buffer \<circ> fst) ` set (opened R)"
    and old: "\<forall>b xs. b < fresh W0 \<longrightarrow> buffers W0 b = Some xs \<longrightarrow> (\<exists>ys. buffers ?W b = Some (xs @ ys))"
    and dist: "distinct (map (buffer \<circ> fst) (opened R))"
    and op: "\<forall>(hs, before) \<in> set (opened R).
            fresh W0 \<le> buffer hs \<and> buffer hs < fresh ?W \<and> buffers ?W (buffer hs) \<noteq> None
            \<and> hs_isolate hs = it \<and> prev hs = before \<and> hs \<notin> set (destroyed R)"
    and cur: "currentHandleScope ?W it = active ?base (opened R)"
    and lnk: "linked ?base (opened R)"
    and des: "\<forall>d \<in> set (destroyed R). buffer d < fresh ?W"
    and loc: "\<forall>(s, l, v) \<in> set (locals R). slot_buffer l = buffer s
            \<and> (s \<notin> set (destroyed R) \<longrightarrow> slot_read ?W l = Some (toTagged H v)
                 \<and> (s \<in> fst ` set (opened R) \<or> buffer s < fresh W0))"
    and res: "\<forall>(before, after) \<in> set (restored R). after = before"
    using inv by (simp_all add: run_inv_def)
  obtain c where c: "currentHandleScope ?W it = Some c"
    using st by (auto split: option.splits)
  obtain slots where slots: "buffers ?W (buffer c) = Some slots"
    using st c by (auto simp: createLocal_def split: option.splits)
  let ?l = "\<lparr>slot_buffer = buffer c, slot_index = length slots\<rparr>"
  let ?W1 = "?W\<lparr>buffers := (buffers ?W)(buffer c \<mapsto> slots @ [toTagged H x])\<rparr>"
  have R1: "R1 = R\<lparr>world := ?W1, locals := (c, ?l, x) # locals R\<rparr>"
    using st c slots by (auto simp: createLocal_def)
  have where_c: "c \<in> fst ` set (opened R) \<or> buffer c < fresh W0"
  proof (cases "opened R")
    case Nil
    then have "\<not> fresh W0 \<le> buffer c"
      using live slots by auto
    then show ?thesis by simp
  next
    case (Cons a rest)
    then have "c = fst a"
      using cur c by (cases a) (simp add: active_def)
    then show ?thesis
      using Cons by simp
  qed
  have g1: "fresh W0 \<le> fresh (world R1)"
    using fr by (simp add: R1)
  have g2: "\<forall>b. fresh W0 \<le> b \<longrightarrow> buffers (world R1) b \<noteq> None \<longrightarrow> b \<in> (buffer \<circ> fst) ` set (opened R1)"
    using live slots by (simp add: R1)
  have g3: "\<forall>b xs. b < fresh W0 \<longrightarrow> buffers W0 b = Some xs \<longrightarrow> (\<exists>ys. buffers (world R1) b = Some (xs @ ys))"
    using old slots by (fastforce simp: R1)
  have g4: "distinct (map (buffer \<circ> fst) (opened R1))"
    using dist by (simp add: R1)
  have g5: "\<forall>(hs, before) \<in> set (opened R1).
            fresh W0 \<le> buffer hs \<and> buffer hs < fresh (world R1) \<and> buffers (world R1) (buffer hs) \<noteq> None
            \<and> hs_isolate hs = it \<and> prev hs = before \<and> hs \<notin> set (destroyed R1)"
    using op by (fastforce simp: R1)
  have g6: "currentHandleScope (world R1) it = active ?base (opened R1)"
    using cur by (simp add: R1)
  have g7: "linked ?base (opened R1)"
    using lnk by (simp add: R1)
  have g8: "\<forall>d \<in> set (destroyed R1). buffer d < fresh (world R1)"
    using des by (simp add: R1)
  have g9: "\<forall>(s, l, v) \<in> set (locals R1). slot_buffer l = buffer s
            \<and> (s \<notin> set (destroyed R1) \<longrightarrow> slot_read (world R1) l = Some (toTagged H v)
                 \<and> (s \<in> fst ` set (opened R1) \<or> buffer s < fresh W0))"
  proof (clarify, intro conjI impI)
    fix s l v assume m: "(s, l, v) \<in> set (locals R1)"
    then consider (new) "s = c" "l = ?l" "v = x" | (old) "(s, l, v) \<in> set (locals R)"
      by (auto simp: R1)
    note cases_m = this
    show "slot_buffer l = buffer s"
      using cases_m loc by cases fastforce+
    assume nd: "s \<notin> set (destroyed R1)"
    then have nd0: "s \<notin> set (destroyed R)" by (simp add: R1)
    show "slot_read (world R1) l = Some (toTagged H v)"
      using cases_m
    proof cases
      case new
      then show ?thesis by (simp add: R1 slot_read_def)
    next
      case old
      then have "slot_read ?W l = Some (toTagged H v)"
        using loc nd0 by fastforce
      with slots have "slot_read ?W1 l = Some (toTagged H v)"
        by (rule slot_read_append)
      then show ?thesis by (simp add: R1)
    qed
    show "s \<in> fst ` set (opened R1) \<or> buffer s < fresh W0"
      using cases_m
    proof cases
      case new
      then show ?thesis using where_c by (simp add: R1)
    next
      case old
      then show ?thesis using loc nd0 by (fastforce simp: R1)
    qed
  qed
  have g10: "\<forall>(before, after) \<in> set (restored R1). after = before"
    using res by (simp add: R1)
  show ?thesis
    unfolding run_inv_def using g1 g2 g3 g4 g5 g6 g7 g8 g9 g10 by blast
qed

lemma step_CloseScope_inv:
  assumes inv: "run_inv H it W0 R"
    and st: "step H it vm CloseScope R = Inr R1"
  shows "run_inv H it W0 R1"
proof -
  let ?W = "world R"
  let ?base = "currentHandleScope W0 it"
  have fr: "fresh W0 \<le> fresh ?W"
    and live: "\<forall>b. fresh W0 \<le> b \<longrightarrow> buffers ?W b \<noteq> None \<longrightarrow> b \<in> (buffer \<circ> fst) ` set (opened R)"
    and old: "\<forall>b xs. b < fresh W0 \<longrightarrow> buffers W0 b = Some xs \<longrightarrow> (\<exists>ys. buffers ?W b = Some (xs @ ys))"
    and dist: "distinct (map (buffer \<circ> fst) (opened R))"
    and op: "\<forall>(hs, before) \<in> set (opened R).
            fresh W0 \<le> buffer hs \<and> buffer hs < fresh ?W \<and> buffers ?W (buffer hs) \<noteq> None
            \<and> hs_isolate hs = it \<and> prev hs = before \<and> hs \<notin> set (destroyed R)"
    and cur: "currentHandleScope ?W it = active ?base (opened R)"
    and lnk: "linked ?base (opened R)"
    and des: "\<forall>d \<in> set (destroyed R). buffer d < fresh ?W"
    and loc: "\<forall>(s, l, v) \<in> set (locals R). slot_buffer l = buffer s
            \<and> (s \<notin> set (destroyed R) \<longrightarrow> slot_read ?W l = Some (toTagged H v)
                 \<and> (s \<in> fst ` set (opened R) \<or> buffer s < fresh W0))"
    and res: "\<forall>(before, after) \<in> set (restored R). after = before"
    using inv by (simp_all add: run_inv_def)
  obtain hs before rest where opn: "opened R = (hs, before) # rest"
    using st by (auto split: list.splits)
  let ?W1 = "HandleScope_dtor hs ?W"
  have R1: "R1 = R\<lparr>world := ?W1, opened := rest, destroyed := hs # destroyed R,
               restored := (before, currentHandleScope ?W1 it) # restored R\<rparr>"
    using st opn by (simp add: Let_def)
  have hs: "fresh W0 \<le> buffer hs" "buffer hs < fresh ?W" "hs_isolate hs = it" "prev hs = before"
    using op opn by simp_all
  have bf: "before = active ?base rest"
    using lnk opn by simp
  have rest_ne: "\<forall>(h, b) \<in> set rest. buffer h \<noteq> buffer hs"
    using dist opn by (auto simp: image_iff)
  have w1: "fresh ?W1 = fresh ?W" "currentHandleScope ?W1 it = before"
    "buffers ?W1 = (buffers ?W)(buffer hs := None)"
    using hs by (simp_all add: HandleScope_dtor_def)
  have g1: "fresh W0 \<le> fresh (world R1)"
    using fr by (simp add: R1 w1)
  have g2: "\<forall>b. fresh W0 \<le> b \<longrightarrow> buffers (world R1) b \<noteq> None \<longrightarrow> b \<in> (buffer \<circ> fst) ` set (opened R1)"
    using live opn by (auto simp: R1 w1)
  have g3: "\<forall>b xs. b < fresh W0 \<longrightarrow> buffers W0 b = Some xs \<longrightarrow> (\<exists>ys. buffers (world R1) b = Some (xs @ ys))"
    using old hs by (auto simp: R1 w1)
  have g4: "distinct (map (buffer \<circ> fst) (opened R1))"
    using dist opn by (simp add: R1)
  have g5: "\<forall>(h, b) \<in> set (opened R1).
            fresh W0 \<le> buffer h \<and> buffer h < fresh (world R1) \<and> buffers (world R1) (buffer h) \<noteq> None
            \<and> hs_isolate h = it \<and> prev h = b \<and> h \<notin> set (destroyed R1)"
    using op opn rest_ne by (fastforce simp: R1 w1)
  have g6: "currentHandleScope (world R1) it = active ?base (opened R1)"
    using bf by (simp add: R1 w1)
  have g7: "linked ?base (opened R1)"
    using lnk opn by (simp add: R1)
  have g8: "\<forall>d \<in> set (destroyed R1). buffer d < fresh (world R1)"
    using des hs by (simp add: R1 w1)
  have g9: "\<forall>(s, l, v) \<in> set (locals R1). slot_buffer l = buffer s
            \<and> (s \<notin> set (destroyed R1) \<longrightarrow> slot_read (world R1) l = Some (toTagged H v)
                 \<and> (s \<in> fst ` set (opened R1) \<or> buffer s < fresh W0))"
  proof (clarify, intro conjI impI)
    fix s l v assume m: "(s, l, v) \<in> set (locals R1)"
    then have m0: "(s, l, v) \<in> set (locals R)" by (simp add: R1)
    show sb: "slot_buffer l = buffer s" using loc m0 by fastforce
    assume nd: "s \<notin> set (destroyed R1)"
    then have nd0: "s \<notin> set (destroyed R)" and ne: "s \<noteq> hs" by (auto simp: R1)
    have rd: "slot_read ?W l = Some (toTagged H v)"
      and wh: "s \<in> fst ` set (opened R) \<or> buffer s < fresh W0"
      using loc m0 nd0 by fastforce+
    show wh1: "s \<in> fst ` set (opened R1) \<or> buffer s < fresh W0"
      using wh ne opn by (auto simp: R1)
    have "buffer s \<noteq> buffer hs"
      using wh1 rest_ne hs by (fastforce simp: R1)
    then have "buffers ?W1 (slot_buffer l) = buffers ?W (slot_buffer l)"
      by (simp add: sb w1)
    then have "slot_read ?W1 l = slot_read ?W l"
      by (rule slot_read_same)
    then show "slot_read (world R1) l = Some (toTagged H v)"
      using rd by (simp add: R1)
  qed
  have g10: "\<forall>(b, a) \<in> set (restored R1). a = b"
    using res by (simp add: R1 w1)
  show ?thesis
    unfolding run_inv_def using g1 g2 g3 g4 g5 g6 g7 g8 g9 g10 by blast
qed

lemma step_inv:
  "run_inv H it W0 R \<Longrightarrow> step H it vm x R = Inr R1 \<Longrightarrow> run_inv H it W0 R1"
  by (cases x) (auto intro: step_OpenScope_inv step_CreateLocal_inv step_CloseScope_inv)

lemma run_inv_run:
  "run_inv H it W0 R \<Longrightarrow> run H it vm xs R = Inr R1 \<Longrightarrow> run_inv H it W0 R1"
proof (induction xs arbitrary: R)
  case Nil
  then show ?case by simp
next
  case (Cons x xs)
  then obtain R2 where s: "step H it vm x R = Inr R2" and r: "run H it vm xs R2 = Inr R1"
    by (auto split: sum.splits)
  have "run_inv H it W0 R2"
    using Cons.prems(1) s by (rule step_inv)
  then show ?case
    using r by (rule Cons.IH)
qed

lemma world_ok_run:
  assumes ok: "world_ok W" and rn: "run H it vm xs (start W) = Inr R"
  shows "world_ok (world R)"
proof -
  have inv: "run_inv H it W R"
    using run_inv_start [OF ok] rn by (rule run_inv_run)
  have fr: "fresh W \<le> fresh (world R)"
    and live: "\<forall>b. fresh W \<le> b \<longrightarrow> buffers (world R) b \<noteq> None \<longrightarrow> b \<in> (buffer \<circ> fst) ` set (opened R)"
    and op: "\<forall>(hs, before) \<in> set (opened R).
            fresh W \<le> buffer hs \<and> buffer hs < fresh (world R) \<and> buffers (world R) (buffer hs) \<noteq> None
            \<and> hs_isolate hs = it \<and> prev hs = before \<and> hs \<notin> set (destroyed R)"
    using inv by (simp_all add: run_inv_def)
  show ?thesis
    unfolding world_ok_def
  proof (intro allI impI)
    fix b assume b: "buffers (world R) b \<noteq> None"
    show "b < fresh (world R)"
    proof (cases "fresh W \<le> b")
      case True
      then have "b \<in> (buffer \<circ> fst) ` set (opened R)" using live b by blast
      then show ?thesis using op by fastforce
    next
      case False
      then show ?thesis using fr by simp
    qed
  qed
qed

lemma run_old_slot:
  assumes ok: "world_ok W" and rn: "run H it vm xs (start W) = Inr R"
    and rd: "slot_read W l = Some t"
  shows "slot_read (world R) l = Some t"
proof -
  have inv: "run_inv H it W R"
    using run_inv_start [OF ok] rn by (rule run_inv_run)
  have old: "\<forall>b xs. b < fresh W \<longrightarrow> buffers W b = Some xs \<longrightarrow>
            (\<exists>ys. buffers (world R) b = Some (xs @ ys))"
    using inv by (simp add: run_inv_def)
  obtain slots where s: "buffers W (slot_buffer l) = Some slots"
    and i: "slot_index l < length slots" and t: "slots ! slot_index l = t"
    using rd by (auto simp: slot_read_def split: option.splits if_splits)
  have "slot_buffer l < fresh W"
    using ok s by (simp add: world_ok_def)
  then obtain ys where "buffers (world R) (slot_buffer l) = Some (slots @ ys)"
    using old s by blast
  then show ?thesis
    using i t by (simp add: slot_read_def nth_append)
qed

lemma run_active_alive:
  assumes ok: "world_ok W" and rn: "run H it vm xs (start W) = Inr R"
    and base: "\<And>p. currentHandleScope W it = Some p \<Longrightarrow> buffers W (buffer p) \<noteq> None"
    and cur: "currentHandleScope (world R) it = Some p"
  shows "buffers (world R) (buffer p) \<noteq> None"
proof -
  have inv: "run_inv H it W R"
    using run_inv_start [OF ok] rn by (rule run_inv_run)
  have old: "\<forall>b xs. b < fresh W \<longrightarrow> buffers W b = Some xs \<longrightarrow>
            (\<exists>ys. buffers (world R) b = Some (xs @ ys))"
    and op: "\<forall>(hs, before) \<in> set (opened R).
            fresh W \<le> buffer hs \<and> buffer hs < fresh (world R) \<and> buffers (world R) (buffer hs) \<noteq> None
            \<and> hs_isolate hs = it \<and> prev hs = before \<and> hs \<notin> set (destroyed R)"
    and act: "currentHandleScope (world R) it = active (currentHandleScope W it) (opened R)"
    using inv by (simp_all add: run_inv_def)
  show ?thesis
  proof (cases "opened R")
    case Nil
    then have p: "currentHandleScope W it = Some p"
      using act cur by (simp add: active_def)
    then obtain xs where xs: "buffers W (buffer p) = Some xs"
      using base by blast
    then have "buffer p < fresh W"
      using ok by (simp add: world_ok_def)
    then show ?thesis
      using old xs by fastforce
  next
    case (Cons a rest)
    then have "p = fst a"
      using act cur by (cases a) (simp add: active_def)
    then show ?thesis
      using op Cons by (cases a) simp
  qed
qed

lemma run_current_closed:
  assumes ok: "world_ok W" and rn: "run H it vm xs (start W) = Inr R"
    and cl: "opened R = []"
  shows "currentHandleScope (world R) it = currentHandleScope W it"
proof -
  have "run_inv H it W R"
    using run_inv_start [OF ok] rn by (rule run_inv_run)
  then have "currentHandleScope (world R) it = active (currentHandleScope W it) (opened R)"
    by (simp add: run_inv_def)
  then show ?thesis
    by (simp add: cl active_def)
qed

section \<open>Escaping a value to the parent scope\<close>

lemma EscapableHandleScopeBase_ctor_closed:
  assumes ok: "world_ok W"
    and parent: "currentHandleScope W it = Some parent"
    and alive: "buffers W (buffer parent) = Some slots"
  shows "EscapableHandleScopeBase_ctor it W =
     Inr (\<lparr>ehs_base = HandleScope it (Some parent) (fresh W),
           escape_slot = \<lparr>slot_buffer = buffer parent, slot_index = length slots\<rparr>\<rparr>,
          W\<lparr>currentHandleScope := (currentHandleScope W)(it := Some (HandleScope it (Some parent) (fresh W))),
            buffers := (buffers W)(fresh W \<mapsto> [], buffer parent \<mapsto> slots @ [TaggedPointer_default]),
            fresh := Suc (fresh W)\<rparr>)"
proof -
  have "buffer parent < fresh W"
    using ok alive by (simp add: world_ok_def)
  then have ne: "buffer parent \<noteq> fresh W"
    by simp
  show ?thesis
    using ne by (simp add: EscapableHandleScopeBase_ctor_def HandleScope_ctor_def Let_def parent alive)
qed

text \<open>
  Claim C5. In a well formed world whose active scope \<open>parent\<close> is alive, the constructor of
  an escapable scope reserves its escape slot at the end of the parent's storage, while
  the new scope, now the active one, has allocated nothing. After any sequence of scope
  operations inside the new scope that closes what it opened, \<open>EscapeSlot\<close> on a readable slot
  holding \<open>t\<close> returns the address of the escape slot; once the escapable scope is destroyed
  the parent is active again and that address reads \<open>t\<close>, and it still does after any
  further sequence of scope operations, none of which can destroy the parent.
\<close>

theorem escape_slot_survives:
  assumes ok: "world_ok W"
    and parent: "currentHandleScope W it = Some parent"
    and alive: "buffers W (buffer parent) = Some slots"
  shows "\<exists>ehs W1. EscapableHandleScopeBase_ctor it W = Inr (ehs, W1)
     \<and> prev (ehs_base ehs) = Some parent
     \<and> escape_slot ehs = \<lparr>slot_buffer = buffer parent, slot_index = length slots\<rparr>
     \<and> buffers W1 (buffer parent) = Some (slots @ [TaggedPointer_default])
     \<and> buffers W1 (buffer (ehs_base ehs)) = Some []
     \<and> currentHandleScope W1 it = Some (ehs_base ehs)
     \<and> (\<forall>ys R2 l t.
           run H it vm ys (start W1) = Inr R2 \<and> opened R2 = [] \<and> slot_read (world R2) l = Some t \<longrightarrow>
           (\<exists>W3. EscapeSlot ehs l (world R2) = Inr (escape_slot ehs, W3)
              \<and> slot_read (HandleScope_dtor (ehs_base ehs) W3) (escape_slot ehs) = Some t
              \<and> currentHandleScope (HandleScope_dtor (ehs_base ehs) W3) it = Some parent
              \<and> (\<forall>zs R. run H it vm zs (start (HandleScope_dtor (ehs_base ehs) W3)) = Inr R \<longrightarrow>
                    slot_read (world R) (escape_slot ehs) = Some t)))"
proof -
  let ?hs = "HandleScope it (Some parent) (fresh W)"
  let ?es = "\<lparr>slot_buffer = buffer parent, slot_index = length slots\<rparr>"
  let ?ehs = "\<lparr>ehs_base = ?hs, escape_slot = ?es\<rparr>"
  let ?W1 = "W\<lparr>currentHandleScope := (currentHandleScope W)(it := Some ?hs),
            buffers := (buffers W)(fresh W \<mapsto> [], buffer parent \<mapsto> slots @ [TaggedPointer_default]),
            fresh := Suc (fresh W)\<rparr>"
  have ctor: "EscapableHandleScopeBase_ctor it W = Inr (?ehs, ?W1)"
    using ok parent alive by (rule EscapableHandleScopeBase_ctor_closed)
  have lt: "buffer parent < fresh W"
    using ok alive by (simp add: world_ok_def)
  have ok1: "world_ok ?W1"
    using ok lt by (auto simp: world_ok_def less_Suc_eq)
  have es1: "slot_read ?W1 ?es = Some TaggedPointer_default"
    by (simp add: slot_read_def)
  have inner: "\<exists>W3. EscapeSlot ?ehs l (world R2) = Inr (?es, W3)
              \<and> slot_read (HandleScope_dtor ?hs W3) ?es = Some t
              \<and> currentHandleScope (HandleScope_dtor ?hs W3) it = Some parent
              \<and> (\<forall>zs R. run H it vm zs (start (HandleScope_dtor ?hs W3)) = Inr R \<longrightarrow>
                    slot_read (world R) ?es = Some t)"
    if rn: "run H it vm ys (start ?W1) = Inr R2" and cl: "opened R2 = []"
      and rd: "slot_read (world R2) l = Some t" for ys R2 l t
  proof -
    let ?W2 = "world R2"
    have ok2: "world_ok ?W2"
      using ok1 rn by (rule world_ok_run)
    have "slot_read ?W2 ?es = Some TaggedPointer_default"
      using ok1 rn es1 by (rule run_old_slot)
    then obtain zs where b2: "buffers ?W2 (buffer parent) = Some zs"
      and i2: "length slots < length zs"
      by (auto simp: slot_read_def split: option.splits if_splits)
    let ?W3 = "?W2\<lparr>buffers := (buffers ?W2)(buffer parent \<mapsto> zs[length slots := t])\<rparr>"
    have esc: "EscapeSlot ?ehs l ?W2 = Inr (?es, ?W3)"
      using rd b2 i2 by (simp add: EscapeSlot_def tagged_def slot_write_def Vector_set_def)
    let ?W4 = "HandleScope_dtor ?hs ?W3"
    have ne: "buffer parent \<noteq> fresh W"
      using lt by simp
    have rd4: "slot_read ?W4 ?es = Some t"
      using i2 ne by (simp add: slot_read_def HandleScope_dtor_def)
    have cur4: "currentHandleScope ?W4 it = Some parent"
      by (simp add: HandleScope_dtor_def)
    have ok4: "world_ok ?W4"
      using ok2 b2 by (auto simp: world_ok_def HandleScope_dtor_def split: if_splits)
    have later: "\<forall>zs R. run H it vm zs (start ?W4) = Inr R \<longrightarrow> slot_read (world R) ?es = Some t"
      using run_old_slot [OF ok4 _ rd4] by blast
    show ?thesis
      using esc rd4 cur4 later by blast
  qed
  have p1: "buffers ?W1 (buffer parent) = Some (slots @ [TaggedPointer_default])"
    by simp
  have p2: "buffers ?W1 (buffer ?hs) = Some []"
    using lt by simp
  have p3: "currentHandleScope ?W1 it = Some ?hs"
    by simp
  show ?thesis
    apply (rule exI [of _ ?ehs], rule exI [of _ ?W1])
    apply (intro conjI)
          apply (rule ctor)
         apply simp
        apply simp
       apply (simp only: p1)
      apply (simp only: EscapableHandleScopeBase.simps p2)
     apply (simp only: EscapableHandleScopeBase.simps p3)
    apply (simp only: EscapableHandleScopeBase.simps)
    using inner apply blast
    done
qed

theorem escape_slot_survives_witness:
  "world_ok (snd (HandleScope_ctor 100 emptyWorld))
   \<and> currentHandleScope (snd (HandleScope_ctor 100 emptyWorld)) 100 = Some (HandleScope 100 None 1)
   \<and> buffers (snd (HandleScope_ctor 100 emptyWorld)) (buffer (HandleScope 100 None 1)) = Some []
   \<and> (\<exists>ehs W1 R2 W3 R.
         EscapableHandleScopeBase_ctor 100 (snd (HandleScope_ctor 100 emptyWorld)) = Inr (ehs, W1)
       \<and> escape_slot ehs = \<lparr>slot_buffer = 1, slot_index = 0\<rparr>
       \<and> run exampleHost 100 200 [CreateLocal (ExCell 9)] (start W1) = Inr R2
       \<and> opened R2 = []
       \<and> slot_read (world R2) \<lparr>slot_buffer = 2, slot_index = 0\<rparr> = Some (HeapPointer 9)
       \<and> EscapeSlot ehs \<lparr>slot_buffer = 2, slot_index = 0\<rparr> (world R2) = Inr (escape_slot ehs, W3)
       \<and> run exampleHost 100 200
            [OpenScope, CreateLocal (ExInt32 3), CloseScope, CreateLocal (ExInt32 4)]
            (start (HandleScope_dtor (ehs_base ehs) W3)) = Inr R
       \<and> slot_read (world R) \<lparr>slot_buffer = 1, slot_index = 0\<rparr> = Some (HeapPointer 9))"
proof -
  let ?W = "snd (HandleScope_ctor 100 emptyWorld)"
  let ?p = "HandleScope 100 None 1"
  let ?l = "\<lparr>slot_buffer = 2, slot_index = 0\<rparr>"
  let ?zs = "[OpenScope, CreateLocal (ExInt32 3), CloseScope, CreateLocal (ExInt32 4)]"
  have ok: "world_ok ?W"
    by (simp add: world_ok_def HandleScope_ctor_def emptyWorld_def Let_def)
  have parent: "currentHandleScope ?W 100 = Some ?p"
    by (simp add: HandleScope_ctor_def emptyWorld_def Let_def)
  have alive: "buffers ?W (buffer ?p) = Some []"
    by (simp add: HandleScope_ctor_def emptyWorld_def Let_def)
  have "\<exists>ehs W1 R2 W3 R.
         EscapableHandleScopeBase_ctor 100 ?W = Inr (ehs, W1)
       \<and> escape_slot ehs = \<lparr>slot_buffer = 1, slot_index = 0\<rparr>
       \<and> run exampleHost 100 200 [CreateLocal (ExCell 9)] (start W1) = Inr R2
       \<and> opened R2 = []
       \<and> slot_read (world R2) ?l = Some (HeapPointer 9)
       \<and> EscapeSlot ehs ?l (world R2) = Inr (escape_slot ehs, W3)
       \<and> run exampleHost 100 200 ?zs (start (HandleScope_dtor (ehs_base ehs) W3)) = Inr R"
    by (simp add: EscapableHandleScopeBase_ctor_def HandleScope_ctor_def HandleScope_dtor_def
          emptyWorld_def Let_def start_def createLocal_def exampleHost_def slot_read_def
          EscapeSlot_def tagged_def slot_write_def Vector_set_def TaggedPointer_default_def)
  then obtain ehs W1 and R2 :: "ExampleValue Run" and W3 and R :: "ExampleValue Run" where
    ctor: "EscapableHandleScopeBase_ctor 100 ?W = Inr (ehs, W1)"
    and es: "escape_slot ehs = \<lparr>slot_buffer = 1, slot_index = 0\<rparr>"
    and r2: "run exampleHost 100 200 [CreateLocal (ExCell 9)] (start W1) = Inr R2"
    and cl: "opened R2 = []"
    and rd: "slot_read (world R2) ?l = Some (HeapPointer 9)"
    and esc: "EscapeSlot ehs ?l (world R2) = Inr (escape_slot ehs, W3)"
    and rn: "run exampleHost 100 200 ?zs (start (HandleScope_dtor (ehs_base ehs) W3)) = Inr R"
    by blast
  have "\<forall>ys R2 l t.
           run exampleHost 100 200 ys (start W1) = Inr R2 \<and> opened R2 = []
           \<and> slot_read (world R2) l = Some t \<longrightarrow>
           (\<exists>W3. EscapeSlot ehs l (world R2) = Inr (escape_slot ehs, W3)
              \<and> slot_read (HandleScope_dtor (ehs_base ehs) W3) (escape_slot ehs) = Some t
              \<and> currentHandleScope (HandleScope_dtor (ehs_base ehs) W3) 100 = Some ?p
              \<and> (\<forall>zs R. run exampleHost 100 200 zs (start (HandleScope_dtor (ehs_base ehs) W3)) = Inr R \<longrightarrow>
                    slot_read (world R) (escape_slot ehs) = Some t))"
    using escape_slot_survives [OF ok parent alive, of exampleHost 200] ctor by auto
  then have "\<exists>W3. EscapeSlot ehs ?l (world R2) = Inr (escape_slot ehs, W3)
              \<and> (\<forall>zs R. run exampleHost 100 200 zs (start (HandleScope_dtor (ehs_base ehs) W3)) = Inr R \<longrightarrow>
                    slot_read (world R) (escape_slot ehs) = Some (HeapPointer 9))"
    using r2 cl rd by blast
  then obtain W3' where esc': "EscapeSlot ehs ?l (world R2) = Inr (escape_slot ehs, W3')"
    and later: "\<forall>zs R. run exampleHost 100 200 zs (start (HandleScope_dtor (ehs_base ehs) W3')) = Inr R \<longrightarrow>
                    slot_read (world R) (escape_slot ehs) = Some (HeapPointer 9)"
    by blast
  have "W3' = W3"
    using esc esc' by simp
  then have "slot_read (world R) (escape_slot ehs) = Some (HeapPointer 9)"
    using later rn by blast
  then have "slot_read (world R) \<lparr>slot_buffer = 1, slot_index = 0\<rparr> = Some (HeapPointer 9)"
    by (simp only: es)
  then show ?thesis
    using ok parent alive ctor es r2 cl rd esc rn by blast
qed

section \<open>The implicit arguments\<close>

text \<open>
  Claim C6. The \<open>ImplicitArgs\<close> handed to the callback has a null holder, the isolate of the
  global object's V8 internals, a null context, the "unset" sentinel as return value, the
  tagged value of the data handle as target, and a null new-target.
\<close>

theorem functionCall_implicit_args:
  assumes callee: "jsCallee callFrame = V8Function f"
    and template: "functionTemplate f = Some ft"
  shows "\<exists>fr W1. functionCall_setup H globalObject callFrame W = Inr (fr, W1)
     \<and> info_implicit_args (fr_info fr) =
          \<lparr>holder = nullptr, isolate = V8GlobalInternals_isolate globalObject,
           context = nullptr, return_value = TaggedPointer_default,
           target = toTagged H (m_data ft), new_target = nullptr\<rparr>
     \<and> tagged (fr_data fr) W1 = Inr (target (info_implicit_args (fr_info fr)))
     \<and> functionCall H globalObject callFrame W =
          Inr (functionCall_result H (fst (m_callback ft (fr_info fr) W1))
                 (snd (m_callback ft (fr_info fr) W1)),
               HandleScope_dtor (fr_hs fr) (snd (m_callback ft (fr_info fr) W1)))"
proof -
  obtain fr W1 where su: "functionCall_setup H globalObject callFrame W = Inr (fr, W1)"
    and args: "fr_args fr = map (toTagged H) (thisValue callFrame # arguments callFrame)"
    and dat: "fr_data fr = \<lparr>slot_buffer = fresh W, slot_index = Suc (length (arguments callFrame))\<rparr>"
    and ia: "fr_implicit_args fr = \<lparr>holder = nullptr, isolate = V8GlobalInternals_isolate globalObject,
           context = nullptr, return_value = TaggedPointer_default,
           target = toTagged H (m_data ft), new_target = nullptr\<rparr>"
    and info: "fr_info fr = \<lparr>info_implicit_args = fr_implicit_args fr,
           info_values = \<lparr>vec = fr_args fr, offset = 1\<rparr>,
           info_length = length (arguments callFrame)\<rparr>"
    and w1: "W1 = W\<lparr>currentHandleScope := (currentHandleScope W)
                  (V8GlobalInternals_isolate globalObject := Some (fr_hs fr)),
                buffers := (buffers W)(fresh W \<mapsto> fr_args fr @ [toTagged H (m_data ft)]),
                fresh := Suc (fresh W)\<rparr>"
    using callee template by (rule functionCall_setup_succeeds)
  have call: "functionCall H globalObject callFrame W =
      Inr (functionCall_result H (fst (m_callback ft (fr_info fr) W1)) (snd (m_callback ft (fr_info fr) W1)),
           HandleScope_dtor (fr_hs fr) (snd (m_callback ft (fr_info fr) W1)))"
    using callee template su by (rule functionCall_closed)
  have rec: "info_implicit_args (fr_info fr) =
          \<lparr>holder = nullptr, isolate = V8GlobalInternals_isolate globalObject,
           context = nullptr, return_value = TaggedPointer_default,
           target = toTagged H (m_data ft), new_target = nullptr\<rparr>"
    by (simp add: info ia)
  have tg: "tagged (fr_data fr) W1 = Inr (target (info_implicit_args (fr_info fr)))"
    by (simp add: rec tagged_def slot_read_def w1 dat args nth_append)
  show ?thesis
    using su rec tg call by blast
qed

theorem functionCall_implicit_args_witness:
  "jsCallee (exampleCall callback_nothing (ExCell 8) (ExCell 5) [ExInt32 10]) =
     V8Function (exampleFunction callback_nothing (ExCell 8))
   \<and> functionTemplate (exampleFunction callback_nothing (ExCell 8)) =
     Some (FunctionTemplate_create 200 400 callback_nothing (ExCell 8))
   \<and> (\<exists>fr W1. functionCall_setup exampleHost exampleGlobalObject
          (exampleCall callback_nothing (ExCell 8) (ExCell 5) [ExInt32 10]) emptyWorld =
          Inr (fr, W1)
        \<and> info_implicit_args (fr_info fr) =
          \<lparr>holder = 0, isolate = 100, context = 0, return_value = Empty,
           target = HeapPointer 8, new_target = 0\<rparr>)"
proof -
  let ?cf = "exampleCall callback_nothing (ExCell 8) (ExCell 5) [ExInt32 10]"
  let ?ft = "FunctionTemplate_create 200 400 callback_nothing (ExCell 8)"
  have callee: "jsCallee ?cf = V8Function (exampleFunction callback_nothing (ExCell 8))"
    by (rule exampleCall_callee)
  have template: "functionTemplate (exampleFunction callback_nothing (ExCell 8)) = Some ?ft"
    by (rule exampleFunction_template)
  obtain fr :: "ExampleValue Frame" and W1 where
    su: "functionCall_setup exampleHost exampleGlobalObject ?cf emptyWorld = Inr (fr, W1)"
    and rec: "info_implicit_args (fr_info fr) =
          \<lparr>holder = nullptr, isolate = V8GlobalInternals_isolate exampleGlobalObject,
           context = nullptr, return_value = TaggedPointer_default,
           target = toTagged exampleHost (m_data ?ft), new_target = nullptr\<rparr>"
    using functionCall_implicit_args [OF callee template, of exampleHost exampleGlobalObject emptyWorld]
    by blast
  have "info_implicit_args (fr_info fr) =
          \<lparr>holder = 0, isolate = 100, context = 0, return_value = Empty,
           target = HeapPointer 8, new_target = 0\<rparr>"
    unfolding rec
    by (simp add: nullptr_def exampleGlobalObject_def TaggedPointer_default_def exampleHost_def
          FunctionTemplate_create_def)
  then show ?thesis
    using callee template su by blast
qed

section \<open>A callee that is not a function\<close>



section \<open>Nested scopes and the scope of the trampoline\<close>




section \<open>The native target of a function\<close>

text \<open>
  Claim C9. The constructor of \<open>Function\<close> gives \<open>FunctionTemplate::functionCall\<close> to the base
  class as the native function for calls, \<open>Function::create\<close> keeps it and records the
  template, and a host call of such a function is a call of the trampoline, with the
  function as callee.
\<close>

theorem Function_native_target:
  "m_functionForCall (Function_ctor vm0 structure :: 'v Function) = FunctionTemplate_functionCall
   \<and> m_functionForCall (Function_create vm0 structure ft) = FunctionTemplate_functionCall
   \<and> functionTemplate (Function_create vm0 structure ft) = Some ft
   \<and> InternalFunction_call other H (Function_create vm0 structure ft) globalObject this args W =
       functionCall H globalObject
         \<lparr>jsCallee = V8Function (Function_create vm0 structure ft), thisValue = this,
          arguments = args\<rparr> W"
  by (simp add: Function_ctor_def Function_create_def Function_finishCreation_def
        InternalFunction_call_def)

theorem Function_native_target_witness:
  "InternalFunction_call (\<lambda>p g c W. Inl (UndefinedBehaviour NullPointerDereference)) exampleHost
     (exampleFunction callback_nothing (ExCell 8)) exampleGlobalObject (ExCell 5) [] emptyWorld =
   functionCall exampleHost exampleGlobalObject
     (exampleCall callback_nothing (ExCell 8) (ExCell 5) []) emptyWorld"
proof -
  let ?ft = "FunctionTemplate_create 200 400 callback_nothing (ExCell 8)"
  have "InternalFunction_call (\<lambda>p g c W. Inl (UndefinedBehaviour NullPointerDereference)) exampleHost
       (Function_create 200 300 ?ft) exampleGlobalObject (ExCell 5) [] emptyWorld =
     functionCall exampleHost exampleGlobalObject
       \<lparr>jsCallee = V8Function (Function_create 200 300 ?ft), thisValue = ExCell 5,
        arguments = []\<rparr> emptyWorld"
    using Function_native_target [of 200 300 ?ft "\<lambda>p g c W. Inl (UndefinedBehaviour NullPointerDereference)"
        exampleHost exampleGlobalObject "ExCell 5" "[]" emptyWorld]
    by (elim conjE)
  then show ?thesis
    by (simp only: exampleFunction_def exampleCall_def)
qed

section \<open>A call without arguments\<close>



end
